theory Spec2Isabelle
  imports Main "HOL-Library.Sublist" "HOL-Library.Word"
begin

section \<open>Python values\<close>

text \<open>
  A Python \<open>str\<close> is a sequence of Unicode code points. The literals of the two source
  files contain code points beyond ASCII (U+274C, U+1F324, ...), and \<open>str.strip\<close> removes
  Unicode white space, so a string is a list of code points here; \<open>u\<close> reads an ASCII
  literal.
\<close>

type_synonym ustring = "nat list"

definition u :: "string \<Rightarrow> ustring" where
  "u s = map of_char s"

text \<open>
  The code points \<open>str.isspace\<close> accepts (CPython's \<open>_PyUnicode_IsWhitespace\<close>):
  U+0009..U+000D, U+001C..U+0020, U+0085, U+00A0, U+1680, U+2000..U+200A, U+2028, U+2029,
  U+202F, U+205F, U+3000.
\<close>

definition py_isspace :: "nat \<Rightarrow> bool" where
  "py_isspace c =
     ((9 \<le> c \<and> c \<le> 13) \<or> (28 \<le> c \<and> c \<le> 32) \<or> c = 133 \<or> c = 160 \<or> c = 5760 \<or>
      (8192 \<le> c \<and> c \<le> 8202) \<or> c = 8232 \<or> c = 8233 \<or> c = 8239 \<or> c = 8287 \<or> c = 12288)"

definition lstrip :: "ustring \<Rightarrow> ustring" where
  "lstrip s = dropWhile py_isspace s"

definition rstrip :: "ustring \<Rightarrow> ustring" where
  "rstrip s = rev (dropWhile py_isspace (rev s))"

text \<open>\<open>s.strip()\<close>\<close>

definition strip :: "ustring \<Rightarrow> ustring" where
  "strip s = rstrip (lstrip s)"

text \<open>\<open>s.startswith(p)\<close>\<close>

definition startswith :: "ustring \<Rightarrow> ustring \<Rightarrow> bool" where
  "startswith s p = prefix p s"

text \<open>\<open>sep.join(xs)\<close>\<close>

fun join :: "ustring \<Rightarrow> ustring list \<Rightarrow> ustring" where
  "join sep [] = []"
| "join sep [x] = x"
| "join sep (x # y # ys) = x @ sep @ join sep (y # ys)"

text \<open>
  The values the code handles without knowing their type: what \<open>json.loads\<close> and
  \<open>response.json()\<close> return, the argument payload of a function call, \<open>delay_hours\<close>.
  A float is its IEEE bit pattern (no arithmetic is done on it here); a dict keeps its
  items in order, looked up with \<open>map_of\<close>.
\<close>

datatype pyval =
    PNone
  | PBool bool
  | PInt int
  | PFloat "64 word"
  | PStr ustring
  | PList "pyval list"
  | PDict "(ustring \<times> pyval) list"

text \<open>
  Exceptions (subclasses of \<open>Exception\<close>). \<open>KeyError\<close>, \<open>IndexError\<close>, \<open>TypeError\<close> and
  \<open>AttributeError\<close> are raised by the interpreter on the operations below,
  \<open>JobLookupError\<close> by the scheduler; \<open>ValueError\<close> carries its message; \<open>Failure\<close> is
  any exception of a remote service or a library, identified by a tag.
\<close>

datatype exn =
    ValueError ustring
  | KeyError pyval
  | IndexError
  | TypeError pyval
  | AttributeError pyval ustring
  | JobLookupError ustring
  | Failure ustring

text \<open>
  What the source calls and does not define: \<open>str()\<close> of a value that is not a \<open>str\<close>
  and of an exception, \<open>json.loads\<close>, \<open>float()\<close>. They are parameters of the model.
\<close>

record pylib =
  str_value :: "pyval \<Rightarrow> ustring"
  str_exn :: "exn \<Rightarrow> ustring"
  json_loads :: "ustring \<Rightarrow> exn + pyval"
  float_of :: "pyval \<Rightarrow> exn + 64 word"

text \<open>\<open>{v}\<close> in an f-string.\<close>

definition fmt :: "pylib \<Rightarrow> pyval \<Rightarrow> ustring" where
  "fmt lib v = (case v of PStr s \<Rightarrow> s | _ \<Rightarrow> str_value lib v)"

text \<open>Sequencing of statements that may raise: the first exception ends the block.\<close>

definition and_then :: "exn + 'a \<Rightarrow> ('a \<Rightarrow> exn + 'b) \<Rightarrow> exn + 'b" where
  "and_then r f = (case r of Inl e \<Rightarrow> Inl e | Inr x \<Rightarrow> f x)"

text \<open>\<open>v[k]\<close> for a \<open>str\<close> key \<open>k\<close>.\<close>

definition subscript_key :: "pyval \<Rightarrow> ustring \<Rightarrow> exn + pyval" where
  "subscript_key v k =
     (case v of
        PDict kvs \<Rightarrow> (case map_of kvs k of Some x \<Rightarrow> Inr x | None \<Rightarrow> Inl (KeyError (PStr k)))
      | _ \<Rightarrow> Inl (TypeError v))"

text \<open>\<open>v[0]\<close>. The keys of a dict are strings here, so \<open>0\<close> is never one of them.\<close>

definition subscript_0 :: "pyval \<Rightarrow> exn + pyval" where
  "subscript_0 v =
     (case v of
        PList xs \<Rightarrow> (case xs of [] \<Rightarrow> Inl IndexError | x # _ \<Rightarrow> Inr x)
      | PStr s \<Rightarrow> (case s of [] \<Rightarrow> Inl IndexError | c # _ \<Rightarrow> Inr (PStr [c]))
      | PDict kvs \<Rightarrow> Inl (KeyError (PInt 0))
      | _ \<Rightarrow> Inl (TypeError v))"

text \<open>\<open>v.get(k, d)\<close>: only a mapping has the method.\<close>

definition py_get :: "pyval \<Rightarrow> ustring \<Rightarrow> pyval \<Rightarrow> exn + pyval" where
  "py_get v k d =
     (case v of
        PDict kvs \<Rightarrow> Inr (case map_of kvs k of Some x \<Rightarrow> x | None \<Rightarrow> d)
      | _ \<Rightarrow> Inl (AttributeError v (u ''get'')))"

text \<open>\<open>v.strip()\<close>: only a \<open>str\<close> has the method.\<close>

definition py_strip :: "pyval \<Rightarrow> exn + ustring" where
  "py_strip v = (case v of PStr s \<Rightarrow> Inr (strip s) | _ \<Rightarrow> Inl (AttributeError v (u ''strip'')))"

text \<open>Truth value of an \<open>Optional[str]\<close>: \<open>None\<close> and the empty string are false.\<close>

definition truthy :: "ustring option \<Rightarrow> bool" where
  "truthy s = (case s of None \<Rightarrow> False | Some t \<Rightarrow> t \<noteq> [])"

section \<open>tools.py: the WhatsApp dispatcher\<close>

text \<open>
  \<open>send_whatsapp\<close>, the normalisation of the recipient (the value of \<open>to_wh\<close> at the call
  of the messaging API):
  \<^verbatim>\<open>
  to_wh = to_number.strip()
  if not to_wh.startswith("whatsapp:"):
      if to_wh.startswith("+"):
          to_wh = "whatsapp:" + to_wh
      else:
          to_wh = "whatsapp:+" + to_wh
  \<close>
\<close>

definition to_wh :: "ustring \<Rightarrow> ustring" where
  "to_wh to_number =
     (let t = strip to_number in
      if \<not> startswith t (u ''whatsapp:'') then
        (if startswith t (u ''+'') then u ''whatsapp:'' @ t else u ''whatsapp:+'' @ t)
      else t)"

text \<open>
  The sender:
  \<^verbatim>\<open>
  from_wh = self.from_whatsapp.strip()
  if not from_wh.startswith("whatsapp:"):
      from_wh = "whatsapp:" + from_wh.lstrip("+")
  \<close>
\<close>

definition from_wh :: "ustring \<Rightarrow> ustring" where
  "from_wh from_whatsapp =
     (let f = strip from_whatsapp in
      if \<not> startswith f (u ''whatsapp:'') then u ''whatsapp:'' @ dropWhile (\<lambda>c. c = 43) f
      else f)"

text \<open>
  What the dispatcher talks to: the process environment, the messaging API and the
  scheduling library with its durable job store. The library is not part of the
  repository; its store is the list of pending jobs, \<open>add_job\<close> without an id takes a
  fresh one from the library, with \<open>replace_existing\<close> it replaces the job of the same
  id, and \<open>remove_job\<close> raises \<open>JobLookupError\<close> for an id that is not in the store.
  A \<open>datetime\<close> is a number of microseconds.
\<close>

datatype trigger = Interval nat | Date int

record job =
  job_id :: ustring
  func :: ustring
  trigger :: trigger
  args :: "ustring list"

record twilio_message =
  sid :: "pyval option"
  status :: "pyval option"
  to :: "pyval option"

record world =
  getenv :: "ustring \<Rightarrow> ustring option"
  stored_jobs :: "job list"
  store_error :: "exn option"
  uuid4_hex :: "job list \<Rightarrow> ustring"
  utcnow_plus_hours :: "64 word \<Rightarrow> exn + int"
  str_datetime :: "int \<Rightarrow> ustring"
  messages_create :: "ustring \<Rightarrow> ustring \<Rightarrow> ustring \<Rightarrow> exn + twilio_message"

definition scheduler_start :: "world \<Rightarrow> exn + job list" where
  "scheduler_start w = (case store_error w of Some e \<Rightarrow> Inl e | None \<Rightarrow> Inr (stored_jobs w))"

definition add_job ::
  "world \<Rightarrow> job list \<Rightarrow> ustring \<Rightarrow> trigger \<Rightarrow> ustring list \<Rightarrow> ustring option \<Rightarrow> bool \<Rightarrow>
   exn + job \<times> job list"
where
  "add_job w jobs f tr as id_opt replace_existing =
     (case store_error w of
        Some e \<Rightarrow> Inl e
      | None \<Rightarrow>
          (let j = \<lparr>job_id = (case id_opt of None \<Rightarrow> uuid4_hex w jobs | Some i \<Rightarrow> i),
                    func = f, trigger = tr, args = as\<rparr>
           in if job_id j \<in> set (map job_id jobs) then
                (if replace_existing
                 then Inr (j, filter (\<lambda>k. job_id k \<noteq> job_id j) jobs @ [j])
                 else Inl (Failure (u ''ConflictingIdError'')))
              else Inr (j, jobs @ [j])))"

definition remove_job :: "world \<Rightarrow> job list \<Rightarrow> ustring \<Rightarrow> exn + job list" where
  "remove_job w jobs jid =
     (case store_error w of
        Some e \<Rightarrow> Inl e
      | None \<Rightarrow>
          if jid \<in> set (map job_id jobs) then Inr (filter (\<lambda>k. job_id k \<noteq> jid) jobs)
          else Inl (JobLookupError jid))"

text \<open>The object: the three credentials, the messaging client (or \<open>None\<close>), the scheduler.\<close>

record tools =
  tw_sid :: "ustring option"
  tw_token :: "ustring option"
  from_whatsapp :: "ustring option"
  client :: "(ustring \<times> ustring) option"
  scheduler :: "job list"

text \<open>
  \<open>Tools.__init__\<close>: reads the credentials, builds the messaging client when the account
  id and the token are both set, starts the scheduler on the durable store, and adds the
  heartbeat job. (Logging and the registration of the instance in the module's global
  are left out: they change nothing the operations below read.)
\<close>

definition Tools_init :: "world \<Rightarrow> exn + tools" where
  "Tools_init w =
     (let sid' = getenv w (u ''TWILIO_ACCOUNT_SID'');
          token' = getenv w (u ''TWILIO_AUTH_TOKEN'');
          from' = getenv w (u ''TWILIO_WHATSAPP_FROM'');
          client' = (if truthy sid' \<and> truthy token'
                     then (case (sid', token') of
                             (Some a, Some b) \<Rightarrow> Some (a, b) | _ \<Rightarrow> None)
                     else None)
      in and_then (scheduler_start w) (\<lambda>jobs.
         and_then (add_job w jobs (u ''heartbeat_runner'') (Interval 30) []
                     (Some (u ''heartbeat_job'')) True) (\<lambda>(j, jobs').
         Inr \<lparr>tw_sid = sid', tw_token = token', from_whatsapp = from',
              client = client', scheduler = jobs'\<rparr>)))"

text \<open>
  \<open>send_whatsapp\<close>. \<open>getattr(msg, 'sid', '')\<close> is the attribute, or the empty string when
  the object has none.
\<close>

definition getattr_or_empty :: "pyval option \<Rightarrow> pyval" where
  "getattr_or_empty a = (case a of None \<Rightarrow> PStr [] | Some v \<Rightarrow> v)"

definition credentials_missing :: ustring where
  "credentials_missing =
     [0x274C] @ u '' Twilio credentials not configured (TWILIO_ACCOUNT_SID/TWILIO_AUTH_TOKEN/TWILIO_WHATSAPP_FROM).''"

definition send_whatsapp :: "pylib \<Rightarrow> world \<Rightarrow> tools \<Rightarrow> ustring \<Rightarrow> ustring \<Rightarrow> exn + ustring" where
  "send_whatsapp lib w self to_number message =
     (case (client self, from_whatsapp self) of
        (Some cl, Some fw) \<Rightarrow>
          if fw = [] then Inr credentials_missing
          else
            (case messages_create w message (from_wh fw) (to_wh to_number) of
               Inr msg \<Rightarrow>
                 Inr ([0x1F4E9] @ u '' WhatsApp (Twilio) sent: sid='' @
                      fmt lib (getattr_or_empty (sid msg)) @ u '', to='' @
                      fmt lib (getattr_or_empty (to msg)))
             | Inl e \<Rightarrow> Inr ([0x274C] @ u '' Twilio error: '' @ str_exn lib e))
      | _ \<Rightarrow> Inr credentials_missing)"

text \<open>
  \<open>schedule_whatsapp\<close>:
  \<^verbatim>\<open>
  try:
      run_time = datetime.utcnow() + timedelta(hours=float(delay_hours))
  except Exception:
      return "<U+274C> Invalid delay_hours value. Must be a number."
  job = self.scheduler.add_job(run_scheduled, "date", run_date=run_time, args=[to_number, message])
  return f"<U+23F3> Scheduled WhatsApp message (job_id={job.id}) for {run_time} UTC"
  \<close>
  The call of \<open>add_job\<close> is outside the \<open>try\<close>: an exception of the store propagates.
\<close>

definition invalid_delay :: ustring where
  "invalid_delay = [0x274C] @ u '' Invalid delay_hours value. Must be a number.''"

definition schedule_whatsapp ::
  "pylib \<Rightarrow> world \<Rightarrow> tools \<Rightarrow> ustring \<Rightarrow> ustring \<Rightarrow> pyval \<Rightarrow> (exn + ustring) \<times> tools"
where
  "schedule_whatsapp lib w self to_number message delay_hours =
     (case and_then (float_of lib delay_hours) (utcnow_plus_hours w) of
        Inl e \<Rightarrow> (Inr invalid_delay, self)
      | Inr run_time \<Rightarrow>
          (case add_job w (scheduler self) (u ''run_scheduled'') (Date run_time)
                  [to_number, message] None False of
             Inl e \<Rightarrow> (Inl e, self)
           | Inr (j, jobs') \<Rightarrow>
               (Inr ([0x23F3] @ u '' Scheduled WhatsApp message (job_id='' @ job_id j @
                     u '') for '' @ str_datetime w run_time @ u '' UTC''),
                self\<lparr>scheduler := jobs'\<rparr>)))"

text \<open>
  \<open>cancel_job\<close>:
  \<^verbatim>\<open>
  try:
      self.scheduler.remove_job(job_id)
      return f"<U+2705> Removed job {job_id}"
  except Exception as e:
      return f"<U+274C> Error removing job {job_id}: {e}"
  \<close>
\<close>

definition cancel_job :: "pylib \<Rightarrow> world \<Rightarrow> tools \<Rightarrow> ustring \<Rightarrow> (exn + ustring) \<times> tools" where
  "cancel_job lib w self jid =
     (case remove_job w (scheduler self) jid of
        Inr jobs' \<Rightarrow> (Inr ([0x2705] @ u '' Removed job '' @ jid), self\<lparr>scheduler := jobs'\<rparr>)
      | Inl e \<Rightarrow>
          (Inr ([0x274C] @ u '' Error removing job '' @ jid @ u '': '' @ str_exn lib e), self))"

section \<open>Gemini_ai_call_mem_tool_v2.py: the conversational client\<close>

text \<open>An entry of \<open>conversation_history\<close> is a dict with the keys \<open>role\<close> and \<open>content\<close>.\<close>

record message =
  role :: ustring
  content :: ustring

record client_state =
  api_key :: ustring
  model :: ustring
  conversation_history :: "message list"

text \<open>
  \<open>OpenAIClientWithMemoryAndTools.__init__\<close>. \<open>sdk_error\<close> is the outcome of
  \<open>genai.configure\<close> and \<open>genai.GenerativeModel\<close>.
\<close>

definition api_key_required :: ustring where
  "api_key_required =
     u ''GEMENI API key is required. Set GEMINI_API_KEY environment variable or pass api_key parameter.''"

definition OpenAIClientWithMemoryAndTools_init ::
  "(ustring \<Rightarrow> ustring option) \<Rightarrow> exn option \<Rightarrow> ustring option \<Rightarrow> ustring \<Rightarrow> exn + client_state"
where
  "OpenAIClientWithMemoryAndTools_init os_getenv sdk_error api_key_arg model_arg =
     (let key = (if truthy api_key_arg then api_key_arg else os_getenv (u ''GEMINI_API_KEY''))
      in case key of
           None \<Rightarrow> Inl (ValueError api_key_required)
         | Some k \<Rightarrow>
             if k = [] then Inl (ValueError api_key_required)
             else (case sdk_error of
                     Some e \<Rightarrow> Inl e
                   | None \<Rightarrow> Inr \<lparr>api_key = k, model = model_arg, conversation_history = []\<rparr>))"

text \<open>
  \<open>get_weather\<close>. \<open>http\<close> is the weather endpoint: for the stripped city, the outcome of
  \<open>requests.get(url, timeout=6)\<close>, \<open>raise_for_status()\<close> and \<open>response.json()\<close>.
  \<^verbatim>\<open>
  cur = data["current_condition"][0]
  temp_c = cur.get("temp_C", "N/A")
  condition = cur["weatherDesc"][0]["value"]
  humidity = cur.get("humidity", "N/A")
  wind_kmph = cur.get("windspeedKmph", "N/A")
  feels_like_c = cur.get("FeelsLikeC", "N/A")
  \<close>
\<close>

definition NA :: pyval where
  "NA = PStr (u ''N/A'')"

definition weather_line ::
  "pylib \<Rightarrow> pyval \<Rightarrow> pyval \<Rightarrow> pyval \<Rightarrow> pyval \<Rightarrow> pyval \<Rightarrow> pyval \<Rightarrow> ustring"
where
  "weather_line lib city temp_c condition humidity wind_kmph feels_like_c =
     [0x1F324, 0xFE0F] @ u '' Weather in '' @ fmt lib city @ u '': '' @ fmt lib temp_c @
     [0xB0] @ u ''C, '' @ fmt lib condition @ u '', Humidity: '' @ fmt lib humidity @
     u ''%, Wind: '' @ fmt lib wind_kmph @ u '' km/h, Feels like: '' @ fmt lib feels_like_c @
     [0xB0] @ u ''C''"

definition get_weather_try :: "pylib \<Rightarrow> (ustring \<Rightarrow> exn + pyval) \<Rightarrow> pyval \<Rightarrow> exn + ustring" where
  "get_weather_try lib http city =
     and_then (py_strip city) (\<lambda>city_stripped.
     and_then (http city_stripped) (\<lambda>data.
     and_then (subscript_key data (u ''current_condition'')) (\<lambda>cc.
     and_then (subscript_0 cc) (\<lambda>cur.
     and_then (py_get cur (u ''temp_C'') NA) (\<lambda>temp_c.
     and_then (subscript_key cur (u ''weatherDesc'')) (\<lambda>wd.
     and_then (subscript_0 wd) (\<lambda>wd0.
     and_then (subscript_key wd0 (u ''value'')) (\<lambda>condition.
     and_then (py_get cur (u ''humidity'') NA) (\<lambda>humidity.
     and_then (py_get cur (u ''windspeedKmph'') NA) (\<lambda>wind_kmph.
     and_then (py_get cur (u ''FeelsLikeC'') NA) (\<lambda>feels_like_c.
     Inr (weather_line lib city temp_c condition humidity wind_kmph feels_like_c))))))))))))"

definition get_weather :: "pylib \<Rightarrow> (ustring \<Rightarrow> exn + pyval) \<Rightarrow> pyval \<Rightarrow> ustring" where
  "get_weather lib http city =
     (case get_weather_try lib http city of
        Inr line \<Rightarrow> line
      | Inl e \<Rightarrow> u ''Error fetching weather for '' @ fmt lib city @ u '': '' @ str_exn lib e)"

text \<open>
  A part of the model's reply, as the loop over \<open>response_message.parts\<close> tells them
  apart: a part with a function call (its name and its argument payload), else a part
  with a \<open>text\<close> attribute, else a part with neither.
\<close>

datatype part = FunctionCall ustring pyval | Text ustring | Neither

text \<open>An entry of the history in the structure the model API expects.\<close>

record gemini_content =
  g_role :: ustring
  g_text :: ustring

text \<open>
  The model SDK and the remote services during one turn, each step on its own:
  \<^item> \<open>start_chat\<close>: \<open>self.client.start_chat(history=formatted_history)\<close>, which may raise;
  \<^item> \<open>generation_config\<close>, \<open>tool_config\<close>: the evaluation of the arguments
    \<open>genai.types.GenerationConfig(...)\<close> and \<open>genai.types.ToolConfig(mode="AUTO")\<close>, which
    may raise before \<open>send_message\<close> is entered;
  \<^item> \<open>send_message\<close>: the first \<open>chat.send_message\<close>, on the history the chat was started
    with: an exception, or the parts of the content of each candidate of the response;
  \<^item> \<open>follow_up_reply\<close>: the second \<open>chat.send_message\<close> and, after it, the reading of
    \<open>final_response.text\<close>;
  \<^item> \<open>weather_http i\<close>: the weather endpoint at the \<open>i\<close>-th function call of the reply.
\<close>

record remote =
  start_chat :: "gemini_content list \<Rightarrow> exn option"
  generation_config :: "int \<Rightarrow> 64 word \<Rightarrow> exn option"
  tool_config :: "exn option"
  send_message :: "gemini_content list \<Rightarrow> ustring \<Rightarrow> int \<Rightarrow> 64 word \<Rightarrow> exn + part list list"
  follow_up_reply :: "ustring \<Rightarrow> int \<Rightarrow> 64 word \<Rightarrow> exn + ustring"
  weather_http :: "nat \<Rightarrow> ustring \<Rightarrow> exn + pyval"

text \<open>
  The effects of a turn in the order they happen: an append to
  \<open>self.conversation_history\<close>, a \<open>send_message\<close> to the model (recorded when the call is
  entered, with its arguments evaluated), a call of \<open>get_weather\<close>.
\<close>

datatype event = HistoryAppend message | ModelCall ustring | WeatherCall pyval

type_synonym session = "client_state \<times> event list"

definition history_append :: "ustring \<Rightarrow> ustring \<Rightarrow> session \<Rightarrow> session" where
  "history_append r c s =
     (case s of (self, evs) \<Rightarrow>
        (self\<lparr>conversation_history := conversation_history self @ [\<lparr>role = r, content = c\<rparr>]\<rparr>,
         evs @ [HistoryAppend \<lparr>role = r, content = c\<rparr>]))"

definition log_event :: "event \<Rightarrow> session \<Rightarrow> session" where
  "log_event e s = (case s of (self, evs) \<Rightarrow> (self, evs @ [e]))"

text \<open>
  \<^verbatim>\<open>
  formatted_history.append({
      "role": "user" if msg["role"] == "user" else "model",
      "parts": [{"text": msg["content"]}]})
  \<close>
  (every entry has the key \<open>content\<close>).
\<close>

definition formatted :: "message \<Rightarrow> gemini_content" where
  "formatted msg =
     \<lparr>g_role = (if role msg = u ''user'' then u ''user'' else u ''model''), g_text = content msg\<rparr>"

text \<open>
  \<^verbatim>\<open>
  for part in getattr(response_message, "parts", []):
      if hasattr(part, "function_call") and part.function_call:
          tool_calls.append({"name": part.function_call.name, "arguments": part.function_call.args})
      elif hasattr(part, "text"):
          response_text += part.text
  \<close>
\<close>

fun scan_parts ::
  "part list \<Rightarrow> ustring \<Rightarrow> (ustring \<times> pyval) list \<Rightarrow> ustring \<times> (ustring \<times> pyval) list"
where
  "scan_parts [] response_text tool_calls = (response_text, tool_calls)"
| "scan_parts (FunctionCall name arguments # ps) response_text tool_calls =
     scan_parts ps response_text (tool_calls @ [(name, arguments)])"
| "scan_parts (Text t # ps) response_text tool_calls =
     scan_parts ps (response_text @ t) tool_calls"
| "scan_parts (Neither # ps) response_text tool_calls =
     scan_parts ps response_text tool_calls"

text \<open>
  The city of a \<open>get_weather\<close> call:
  \<^verbatim>\<open>
  args = tc["arguments"]
  if isinstance(args, str):
      try:
          args = json.loads(args)
      except Exception:
          args = {"city": args}
  elif args is None:
      args = {}
  city = args.get("city", "Unknown")
  \<close>
\<close>

definition tool_city :: "pylib \<Rightarrow> pyval \<Rightarrow> exn + pyval" where
  "tool_city lib arguments =
     (let args' =
        (case arguments of
           PStr s \<Rightarrow> (case json_loads lib s of
                        Inr v \<Rightarrow> v
                      | Inl e \<Rightarrow> PDict [(u ''city'', PStr s)])
         | PNone \<Rightarrow> PDict []
         | _ \<Rightarrow> arguments)
      in py_get args' (u ''city'') (PStr (u ''Unknown'')))"

definition not_implemented :: "ustring \<Rightarrow> ustring" where
  "not_implemented name = u ''Tool '' @ [39] @ name @ [39] @ u '' not implemented.''"

text \<open>
  The loop over \<open>tool_calls\<close>; a result is the pair of \<open>tool_call_id\<close> and \<open>content\<close>. An
  exception leaves the loop (and the \<open>try\<close> block) with the history as it is then.
\<close>

fun run_tools ::
  "pylib \<Rightarrow> remote \<Rightarrow> nat \<Rightarrow> (ustring \<times> pyval) list \<Rightarrow> (ustring \<times> ustring) list \<Rightarrow> session \<Rightarrow>
   (exn + (ustring \<times> ustring) list) \<times> session"
where
  "run_tools lib env i [] tool_results s = (Inr tool_results, s)"
| "run_tools lib env i ((name, arguments) # tcs) tool_results s =
     (if name = u ''get_weather'' then
        (case tool_city lib arguments of
           Inl e \<Rightarrow> (Inl e, s)
         | Inr city \<Rightarrow>
             run_tools lib env (Suc i) tcs
               (tool_results @ [(name, get_weather lib (weather_http env i) city)])
               (log_event (WeatherCall city) s))
      else
        run_tools lib env (Suc i) tcs (tool_results @ [(name, not_implemented name)]) s)"

text \<open>
  What happens in the \<open>try\<close> block before the first \<open>send_message\<close> is entered
  (lines 104 to 115): the chat is started on the formatted history, and the arguments of
  the call are evaluated. \<open>None\<close> when nothing raises.
\<close>

definition before_first_call :: "remote \<Rightarrow> gemini_content list \<Rightarrow> int \<Rightarrow> 64 word \<Rightarrow> exn option" where
  "before_first_call env formatted_history max_tokens temperature =
     (case start_chat env formatted_history of
        Some e \<Rightarrow> Some e
      | None \<Rightarrow>
          (case generation_config env max_tokens temperature of
             Some e \<Rightarrow> Some e
           | None \<Rightarrow> tool_config env))"

text \<open>\<open>response.candidates[0].content\<close> and its parts: \<open>IndexError\<close> without a candidate.\<close>

definition first_candidate :: "part list list \<Rightarrow> exn + part list" where
  "first_candidate candidates = (case candidates of [] \<Rightarrow> Inl IndexError | c # _ \<Rightarrow> Inr c)"

text \<open>
  The first call of the model as a whole, from \<open>start_chat\<close> to the parts of the reply:
  the exception that ends it, or the parts.
\<close>

definition first_call ::
  "remote \<Rightarrow> gemini_content list \<Rightarrow> ustring \<Rightarrow> int \<Rightarrow> 64 word \<Rightarrow> exn + part list"
where
  "first_call env formatted_history user_message max_tokens temperature =
     (case before_first_call env formatted_history max_tokens temperature of
        Some e \<Rightarrow> Inl e
      | None \<Rightarrow>
          and_then (send_message env formatted_history user_message max_tokens temperature)
            first_candidate)"

text \<open>
  The \<open>try\<close> block of \<open>chat_completion_with_tools\<close>: what it returns or raises, the object
  and the effects afterwards. The list \<open>messages\<close> built before the block (system message,
  history, user message) is never read, and neither is \<open>system_message\<close>.
\<close>

definition chat_try ::
  "pylib \<Rightarrow> remote \<Rightarrow> client_state \<Rightarrow> ustring \<Rightarrow> int \<Rightarrow> 64 word \<Rightarrow> (exn + ustring) \<times> session"
where
  "chat_try lib env self user_message max_tokens temperature =
     (let formatted_history = map formatted (conversation_history self)
      in case before_first_call env formatted_history max_tokens temperature of
           Some e \<Rightarrow> (Inl e, (self, []))
         | None \<Rightarrow>
        (let s0 = log_event (ModelCall user_message) (self, [])
         in case and_then
                   (send_message env formatted_history user_message max_tokens temperature)
                   first_candidate of
           Inl e \<Rightarrow> (Inl e, s0)
         | Inr parts \<Rightarrow>
             (case scan_parts parts [] [] of
                (response_text, tool_calls) \<Rightarrow>
                  if tool_calls \<noteq> [] then
                    (case run_tools lib env 0 tool_calls []
                            (history_append (u ''user'') user_message s0) of
                       (Inl e, s1) \<Rightarrow> (Inl e, s1)
                     | (Inr tool_results, s1) \<Rightarrow>
                         (let s2 = history_append (u ''assistant'') response_text s1;
                              s3 = history_append (u ''tool'')
                                     (join [10] (map snd tool_results)) s2;
                              follow_up = join [10] (map snd tool_results)
                          in case generation_config env max_tokens temperature of
                               Some e \<Rightarrow> (Inl e, s3)
                             | None \<Rightarrow>
                            (let s4 = log_event (ModelCall follow_up) s3
                             in case follow_up_reply env follow_up max_tokens temperature of
                               Inl e \<Rightarrow> (Inl e, s4)
                             | Inr text \<Rightarrow>
                                 (let ai_response = strip text
                                  in (Inr ai_response,
                                      history_append (u ''assistant'') ai_response s4)))))
                  else
                    (let ai_response = strip response_text
                     in (Inr ai_response,
                         history_append (u ''assistant'') ai_response
                           (history_append (u ''user'') user_message s0))))))"

text \<open>
  \<open>chat_completion_with_tools\<close>: the block above under
  \<^verbatim>\<open>except Exception as e: return f"Error making Gemini API call: {str(e)}"\<close>
\<close>

definition chat_completion_with_tools ::
  "pylib \<Rightarrow> remote \<Rightarrow> client_state \<Rightarrow> ustring \<Rightarrow> ustring option \<Rightarrow> int \<Rightarrow> 64 word \<Rightarrow>
   (exn + ustring) \<times> session"
where
  "chat_completion_with_tools lib env self user_message system_message max_tokens temperature =
     (let messages =
            (if truthy system_message
             then (case system_message of
                     Some sm \<Rightarrow> [\<lparr>role = u ''system'', content = sm\<rparr>] | None \<Rightarrow> [])
             else []) @
            conversation_history self @ [\<lparr>role = u ''user'', content = user_message\<rparr>]
      in case chat_try lib env self user_message max_tokens temperature of
           (Inr ai_response, s) \<Rightarrow> (Inr ai_response, s)
         | (Inl e, s) \<Rightarrow> (Inr (u ''Error making Gemini API call: '' @ str_exn lib e), s))"

text \<open>
  A sequence of calls on the same object, each with its own user message and its own
  behaviour of the remote services. A call that raised would end the sequence.
\<close>

record turn =
  t_remote :: remote
  t_user_message :: ustring
  t_system_message :: "ustring option"
  t_max_tokens :: int
  t_temperature :: "64 word"

definition call_turn :: "pylib \<Rightarrow> client_state \<Rightarrow> turn \<Rightarrow> (exn + ustring) \<times> session" where
  "call_turn lib self t =
     chat_completion_with_tools lib (t_remote t) self (t_user_message t) (t_system_message t)
       (t_max_tokens t) (t_temperature t)"

fun run_turns :: "pylib \<Rightarrow> client_state \<Rightarrow> turn list \<Rightarrow> exn + ustring list \<times> client_state" where
  "run_turns lib self [] = Inr ([], self)"
| "run_turns lib self (t # ts) =
     (case call_turn lib self t of
        (Inl e, s) \<Rightarrow> Inl e
      | (Inr reply, s) \<Rightarrow>
          (case run_turns lib (fst s) ts of
             Inl e \<Rightarrow> Inl e
           | Inr (replies, self') \<Rightarrow> Inr (reply # replies, self')))"

text \<open>What a list of effects appended to the history.\<close>

definition appended :: "event list \<Rightarrow> message list" where
  "appended evs = concat (map (\<lambda>e. case e of HistoryAppend m \<Rightarrow> [m] | _ \<Rightarrow> []) evs)"

text \<open>\<open>m\<close> is appended to the history before the first message is sent to the model.\<close>

definition appended_before_first_call :: "message \<Rightarrow> event list \<Rightarrow> bool" where
  "appended_before_first_call m evs =
     (HistoryAppend m \<in> set (takeWhile (\<lambda>e. case e of ModelCall t \<Rightarrow> False | _ \<Rightarrow> True) evs))"

text \<open>No call of the sequence leaves its \<open>try\<close> block by an exception.\<close>

fun turns_ok :: "pylib \<Rightarrow> client_state \<Rightarrow> turn list \<Rightarrow> bool" where
  "turns_ok lib self [] = True"
| "turns_ok lib self (t # ts) =
     (case chat_try lib (t_remote t) self (t_user_message t) (t_max_tokens t) (t_temperature t) of
        (Inl e, s) \<Rightarrow> False
      | (Inr reply, s) \<Rightarrow> turns_ok lib (fst s) ts)"

definition entries_with_role :: "ustring \<Rightarrow> message list \<Rightarrow> nat" where
  "entries_with_role r h = length (filter (\<lambda>m. role m = r) h)"

text \<open>The user message and the returned reply of each call, in the order of the calls.\<close>

fun exchanges :: "turn list \<Rightarrow> ustring list \<Rightarrow> message list" where
  "exchanges (t # ts) (reply # replies) =
     \<lparr>role = u ''user'', content = t_user_message t\<rparr> #
     \<lparr>role = u ''assistant'', content = reply\<rparr> # exchanges ts replies"
| "exchanges ts replies = []"

section \<open>Concrete instances\<close>

text \<open>
  An interpreter, a process environment and remote services to run the definitions on.
  \<open>example_lib\<close> prints a missing key and a missing attribute as CPython does, parses
  the two JSON texts used below and converts numbers only.
\<close>

definition type_name :: "pyval \<Rightarrow> ustring" where
  "type_name v =
     (case v of
        PNone \<Rightarrow> u ''NoneType'' | PBool b \<Rightarrow> u ''bool'' | PInt i \<Rightarrow> u ''int''
      | PFloat x \<Rightarrow> u ''float'' | PStr s \<Rightarrow> u ''str'' | PList xs \<Rightarrow> u ''list''
      | PDict kvs \<Rightarrow> u ''dict'')"

definition example_lib :: pylib where
  "example_lib =
     \<lparr>str_value = (\<lambda>v. case v of PNone \<Rightarrow> u ''None'' | _ \<Rightarrow> u ''<value>''),
      str_exn = (\<lambda>e. case e of
                   ValueError m \<Rightarrow> m
                 | KeyError (PStr k) \<Rightarrow> [39] @ k @ [39]
                 | AttributeError v a \<Rightarrow>
                     [39] @ type_name v @ [39] @ u '' object has no attribute '' @ [39] @ a @ [39]
                 | JobLookupError j \<Rightarrow> u ''No job by the id of '' @ j @ u '' was found''
                 | Failure m \<Rightarrow> m
                 | _ \<Rightarrow> u ''<exception>''),
      json_loads = (\<lambda>s. if s = u ''123'' then Inr (PInt 123)
                        else if s = u ''{}'' then Inr (PDict [])
                        else Inl (ValueError (u ''Expecting value''))),
      float_of = (\<lambda>v. case v of
                    PFloat x \<Rightarrow> Inr x
                  | PInt i \<Rightarrow> if i = 2 then Inr 0x4000000000000000
                              else Inl (Failure (u ''not in the table''))
                  | PStr s \<Rightarrow> Inl (ValueError (u ''could not convert string to float''))
                  | _ \<Rightarrow> Inl (TypeError v))\<rparr>"

text \<open>No credential is set, the job store is empty and works.\<close>

definition example_world :: world where
  "example_world =
     \<lparr>getenv = (\<lambda>k. None),
      stored_jobs = [],
      store_error = None,
      uuid4_hex = (\<lambda>jobs. u ''job0''),
      utcnow_plus_hours = (\<lambda>h. Inr 0),
      str_datetime = (\<lambda>t. u ''2026-01-01 00:00:00''),
      messages_create = (\<lambda>body f t. Inl (Failure (u ''unreachable'')))\<rparr>"

definition heartbeat_job :: job where
  "heartbeat_job =
     \<lparr>job_id = u ''heartbeat_job'', func = u ''heartbeat_runner'', trigger = Interval 30, args = []\<rparr>"

definition example_tools :: tools where
  "example_tools =
     \<lparr>tw_sid = None, tw_token = None, from_whatsapp = None, client = None,
      scheduler = [heartbeat_job]\<rparr>"

text \<open>
  A client with an empty history; a model that answers in plain text; a model that cannot
  be reached; a model that asks for \<open>get_weather\<close> with a given argument payload, with a
  weather endpoint that answers with a given JSON value.
\<close>

definition example_self :: client_state where
  "example_self =
     \<lparr>api_key = u ''key'', model = u ''gemini-2.5-flash'', conversation_history = []\<rparr>"

definition remote_plain :: remote where
  "remote_plain =
     \<lparr>start_chat = (\<lambda>h. None), generation_config = (\<lambda>n t. None), tool_config = None,
      send_message = (\<lambda>h m n t. Inr [[Text (u ''Hello! '')]]),
      follow_up_reply = (\<lambda>f n t. Inl (Failure (u ''unreachable''))),
      weather_http = (\<lambda>i c. Inl (Failure (u ''unreachable'')))\<rparr>"

definition remote_down :: remote where
  "remote_down =
     \<lparr>start_chat = (\<lambda>h. None), generation_config = (\<lambda>n t. None), tool_config = None,
      send_message = (\<lambda>h m n t. Inl (Failure (u ''503 Service Unavailable''))),
      follow_up_reply = (\<lambda>f n t. Inl (Failure (u ''503 Service Unavailable''))),
      weather_http = (\<lambda>i c. Inl (Failure (u ''unreachable'')))\<rparr>"

definition remote_weather :: "pyval \<Rightarrow> pyval \<Rightarrow> remote" where
  "remote_weather arguments json =
     \<lparr>start_chat = (\<lambda>h. None), generation_config = (\<lambda>n t. None), tool_config = None,
      send_message = (\<lambda>h m n t. Inr [[FunctionCall (u ''get_weather'') arguments]]),
      follow_up_reply = (\<lambda>f n t. Inr (u ''Clear skies. '')),
      weather_http = (\<lambda>i c. Inr json)\<rparr>"

text \<open>An SDK whose \<open>ToolConfig\<close> raises: the model is never called.\<close>

definition remote_misconfigured :: remote where
  "remote_misconfigured =
     \<lparr>start_chat = (\<lambda>h. None), generation_config = (\<lambda>n t. None),
      tool_config = Some (Failure (u ''ToolConfig'')),
      send_message = (\<lambda>h m n t. Inr [[Text (u ''Hello! '')]]),
      follow_up_reply = (\<lambda>f n t. Inl (Failure (u ''unreachable''))),
      weather_http = (\<lambda>i c. Inl (Failure (u ''unreachable'')))\<rparr>"

text \<open>A full answer of the weather endpoint, and the same answer without \<open>weatherDesc\<close>.\<close>

definition weather_json :: pyval where
  "weather_json =
     PDict [(u ''current_condition'',
       PList [PDict [(u ''temp_C'', PStr (u ''18'')),
                     (u ''weatherDesc'', PList [PDict [(u ''value'', PStr (u ''Clear''))]]),
                     (u ''humidity'', PStr (u ''40'')),
                     (u ''windspeedKmph'', PStr (u ''10'')),
                     (u ''FeelsLikeC'', PStr (u ''17''))]])]"

definition weather_json_no_description :: pyval where
  "weather_json_no_description =
     PDict [(u ''current_condition'',
       PList [PDict [(u ''temp_C'', PStr (u ''18'')),
                     (u ''humidity'', PStr (u ''40'')),
                     (u ''windspeedKmph'', PStr (u ''10'')),
                     (u ''FeelsLikeC'', PStr (u ''17''))]])]"

text \<open>A call with the defaults \<open>max_tokens=200\<close> and \<open>temperature=0.7\<close>.\<close>

definition example_turn :: "remote \<Rightarrow> ustring \<Rightarrow> turn" where
  "example_turn env user_message =
     \<lparr>t_remote = env, t_user_message = user_message, t_system_message = None,
      t_max_tokens = 200, t_temperature = 0x3FE6666666666666\<rparr>"

section \<open>Strings: white space\<close>

lemma strip_no_space:
  assumes "s \<noteq> []" "\<not> py_isspace (hd s)" "\<not> py_isspace (last s)"
  shows "strip s = s"
proof -
  from assms obtain x xs where s: "s = x # xs" by (cases s) auto
  with assms have l: "lstrip s = s" by (simp add: lstrip_def)
  from assms have "rev s \<noteq> []" "\<not> py_isspace (hd (rev s))" by (simp_all add: hd_rev)
  then have "dropWhile py_isspace (rev s) = rev s" by (cases "rev s") auto
  then show ?thesis by (simp add: strip_def rstrip_def l)
qed

lemma strip_last:
  assumes "strip s \<noteq> []"
  shows "\<not> py_isspace (last (strip s))"
proof -
  let ?d = "dropWhile py_isspace (rev (lstrip s))"
  from assms have ne: "?d \<noteq> []" by (simp add: strip_def rstrip_def)
  then have "\<not> py_isspace (hd ?d)" by (rule hd_dropWhile)
  moreover have "last (strip s) = hd ?d" using ne by (simp add: strip_def rstrip_def last_rev)
  ultimately show ?thesis by simp
qed

section \<open>The dispatcher: recipient addresses\<close>

lemma u_whatsapp_hd: "\<not> py_isspace (hd (u ''whatsapp:'' @ t))"
  by (simp add: u_def py_isspace_def)

lemma u_whatsapp_plus: "u ''whatsapp:+'' = u ''whatsapp:'' @ u ''+''"
  by (simp add: u_def)

text \<open>An address that has the prefix and does not end in white space is left as it is.\<close>

lemma to_wh_fixed:
  assumes "startswith r (u ''whatsapp:'')" "\<not> py_isspace (last r)"
  shows "to_wh r = r"
proof -
  from assms(1) obtain t where r: "r = u ''whatsapp:'' @ t"
    by (auto simp: startswith_def prefix_def)
  have "r \<noteq> []" by (simp add: r u_def)
  moreover have "\<not> py_isspace (hd r)" unfolding r by (rule u_whatsapp_hd)
  ultimately have "strip r = r" using assms(2) by (rule strip_no_space)
  with assms(1) show ?thesis by (simp add: to_wh_def)
qed

text \<open>Every normalised address is of that kind.\<close>

lemma to_wh_shape:
  "startswith (to_wh s) (u ''whatsapp:'') \<and> \<not> py_isspace (last (to_wh s))"
proof (cases "strip s = []")
  case True
  then show ?thesis
    by (simp add: to_wh_def startswith_def u_def py_isspace_def)
next
  case False
  then have "\<not> py_isspace (last (strip s))" by (rule strip_last)
  with False show ?thesis
    by (auto simp: to_wh_def Let_def startswith_def u_whatsapp_plus)
qed

text \<open>
  An address is normalised to its stripped form behind the prefix: the stripped address
  itself when it has the prefix, behind \<open>whatsapp:\<close> when it starts with \<open>+\<close>, behind
  \<open>whatsapp:+\<close> otherwise.
\<close>

lemma to_wh_cases:
  "to_wh s =
     (if startswith (strip s) (u ''whatsapp:'') then strip s
      else if startswith (strip s) (u ''+'') then u ''whatsapp:'' @ strip s
      else u ''whatsapp:+'' @ strip s)"
  by (simp add: to_wh_def Let_def)

text \<open>
  Claim C8, as amended. The normalisation of the recipient address in \<open>send_whatsapp\<close> is
  idempotent: for every address string, normalising the normalised address gives the
  normalised address again. The normalised address has the prefix \<open>whatsapp:\<close> and ends
  with the stripped address. An address that already has the prefix is changed by the
  removal of surrounding white space only: it is normalised to its stripped form, and it
  is left unchanged when it does not end in white space.
\<close>

theorem to_wh_idempotent:
  "to_wh (to_wh s) = to_wh s \<and>
   startswith (to_wh s) (u ''whatsapp:'') \<and>
   suffix (strip s) (to_wh s) \<and>
   (startswith (strip s) (u ''whatsapp:'') \<longrightarrow> to_wh s = strip s) \<and>
   (startswith s (u ''whatsapp:'') \<and> \<not> py_isspace (last s) \<longrightarrow> to_wh s = s)"
proof (intro conjI impI)
  show "to_wh (to_wh s) = to_wh s"
    using to_wh_shape [of s] by (simp add: to_wh_fixed)
  show "startswith (to_wh s) (u ''whatsapp:'')"
    using to_wh_shape [of s] by simp
  show "suffix (strip s) (to_wh s)"
    by (simp add: to_wh_cases suffix_def)
  show "to_wh s = strip s" if "startswith (strip s) (u ''whatsapp:'')"
    using that by (simp add: to_wh_cases)
  show "to_wh s = s" if "startswith s (u ''whatsapp:'') \<and> \<not> py_isspace (last s)"
    using that by (simp add: to_wh_fixed)
qed

theorem to_wh_idempotent_witness:
  "startswith (strip (u ''whatsapp:+9198'')) (u ''whatsapp:'') \<and>
   startswith (u ''whatsapp:+9198'') (u ''whatsapp:'') \<and>
   \<not> py_isspace (last (u ''whatsapp:+9198'')) \<and>
   to_wh (u ''whatsapp:+9198'') = u ''whatsapp:+9198'' \<and>
   to_wh (to_wh (u ''whatsapp:+9198'')) = to_wh (u ''whatsapp:+9198'')"
proof -
  have h: "startswith (u ''whatsapp:+9198'') (u ''whatsapp:'') \<and>
           \<not> py_isspace (last (u ''whatsapp:+9198''))"
    by (simp add: startswith_def u_def py_isspace_def)
  have h': "startswith (strip (u ''whatsapp:+9198'')) (u ''whatsapp:'')"
    by (simp add: strip_def lstrip_def rstrip_def startswith_def u_def py_isspace_def)
  from to_wh_idempotent [of "u ''whatsapp:+9198''"] h h' show ?thesis
    by blast
qed

text \<open>
  The claim as stated (an address that already has the prefix is left unchanged) fails for
  an address with the prefix that ends in a space: the space is stripped.
\<close>

theorem to_wh_prefixed_trailing_space:
  "startswith (u ''whatsapp:+1 '') (u ''whatsapp:'') \<and>
   to_wh (u ''whatsapp:+1 '') = u ''whatsapp:+1'' \<and>
   to_wh (u ''whatsapp:+1 '') \<noteq> u ''whatsapp:+1 ''"
  by (simp add: to_wh_def strip_def lstrip_def rstrip_def startswith_def u_def py_isspace_def)

text \<open>An address without the prefix, with and without the plus sign.\<close>

lemma to_wh_examples:
  "to_wh (u '' +9198 '') = u ''whatsapp:+9198''"
  "to_wh (u ''9198'') = u ''whatsapp:+9198''"
  by (simp_all add: to_wh_def strip_def lstrip_def rstrip_def startswith_def u_def py_isspace_def)

section \<open>The dispatcher: jobs\<close>

text \<open>
  Claim C7. For every job identifier that is not in the job store, \<open>cancel_job\<close> does not
  raise: it returns the string that starts with the error mark U+274C and carries the
  identifier and the text of the exception (the scheduler's \<open>JobLookupError\<close>, or the
  failure of the store), and the store is as before.
\<close>

theorem cancel_job_unknown:
  assumes "jid \<notin> set (map job_id (scheduler self))"
  shows "cancel_job lib w self jid =
           (Inr ([0x274C] @ u '' Error removing job '' @ jid @ u '': '' @
                 str_exn lib (case store_error w of Some e \<Rightarrow> e | None \<Rightarrow> JobLookupError jid)),
            self)"
  using assms by (simp add: cancel_job_def remove_job_def split: option.splits)

theorem cancel_job_unknown_witness:
  "u ''job0'' \<notin> set (map job_id (scheduler example_tools)) \<and>
   cancel_job example_lib example_world example_tools (u ''job0'') =
     (Inr ([0x274C] @ u '' Error removing job job0: No job by the id of job0 was found''),
      example_tools)"
proof -
  have h: "u ''job0'' \<notin> set (map job_id (scheduler example_tools))"
    by (simp add: example_tools_def heartbeat_job_def u_def)
  show ?thesis
    using h cancel_job_unknown [OF h, of example_lib example_world]
    by (simp add: example_lib_def example_world_def u_def)
qed

text \<open>
  Claim C6. For every \<open>delay_hours\<close> that \<open>float()\<close> does not convert, \<open>schedule_whatsapp\<close>
  returns the validation error string and adds no job: the object, and with it the job
  store, is as before.
\<close>

theorem schedule_whatsapp_invalid_delay:
  assumes "float_of lib delay_hours = Inl e"
  shows "schedule_whatsapp lib w self to_number message delay_hours = (Inr invalid_delay, self)"
  using assms by (simp add: schedule_whatsapp_def and_then_def)

theorem schedule_whatsapp_invalid_delay_witness:
  "float_of example_lib (PStr (u ''soon'')) =
     Inl (ValueError (u ''could not convert string to float'')) \<and>
   schedule_whatsapp example_lib example_world example_tools (u ''+9198'') (u ''hello'')
       (PStr (u ''soon'')) =
     (Inr ([0x274C] @ u '' Invalid delay_hours value. Must be a number.''), example_tools)"
proof -
  have h: "float_of example_lib (PStr (u ''soon'')) =
             Inl (ValueError (u ''could not convert string to float''))"
    by (simp add: example_lib_def)
  show ?thesis
    using h schedule_whatsapp_invalid_delay
      [OF h, of example_world example_tools "u ''+9198''" "u ''hello''"]
    by (simp add: invalid_delay_def)
qed

text \<open>With a delay that converts, the job is added under the identifier the scheduler gave.\<close>

lemma schedule_whatsapp_valid_example:
  "schedule_whatsapp example_lib example_world example_tools (u ''+9198'') (u ''hello'') (PInt 2) =
     (Inr ([0x23F3] @ u '' Scheduled WhatsApp message (job_id=job0) for 2026-01-01 00:00:00 UTC''),
      example_tools\<lparr>scheduler := [heartbeat_job,
         \<lparr>job_id = u ''job0'', func = u ''run_scheduled'', trigger = Date 0,
          args = [u ''+9198'', u ''hello'']\<rparr>]\<rparr>)"
  by (simp add: schedule_whatsapp_def and_then_def add_job_def example_lib_def example_world_def
      example_tools_def heartbeat_job_def u_def Let_def)

section \<open>The conversational client: one turn\<close>

text \<open>The tool loop appends nothing to the history; its effects are calls of \<open>get_weather\<close>.\<close>

lemma run_tools_session:
  "run_tools lib env i tcs acc s = (r, s') \<Longrightarrow>
     fst s' = fst s \<and> (\<exists>cities. snd s' = snd s @ map WeatherCall cities)"
proof (induction tcs arbitrary: i acc s)
  case Nil
  then show ?case by auto
next
  case (Cons tc tcs)
  obtain name arguments where tc: "tc = (name, arguments)" by (cases tc)
  show ?case
  proof (cases "name = u ''get_weather''")
    case False
    with Cons.prems tc
    have "run_tools lib env (Suc i) tcs (acc @ [(name, not_implemented name)]) s = (r, s')"
      by simp
    then show ?thesis by (rule Cons.IH)
  next
    case True
    show ?thesis
    proof (cases "tool_city lib arguments")
      case (Inl e)
      with Cons.prems tc True have "s' = s" by simp
      then show ?thesis by simp
    next
      case (Inr city)
      let ?s1 = "log_event (WeatherCall city) s"
      from Cons.prems tc True Inr
      have "run_tools lib env (Suc i) tcs
              (acc @ [(name, get_weather lib (weather_http env i) city)]) ?s1 = (r, s')"
        by simp
      then have "fst s' = fst ?s1 \<and> (\<exists>cities. snd s' = snd ?s1 @ map WeatherCall cities)"
        by (rule Cons.IH)
      then obtain cities where "fst s' = fst ?s1" "snd s' = snd ?s1 @ map WeatherCall cities"
        by blast
      then have "fst s' = fst s" "snd s' = snd s @ map WeatherCall (city # cities)"
        by (simp_all add: log_event_def split: prod.splits)
      then show ?thesis by blast
    qed
  qed
qed

lemma appended_simps:
  "appended [] = []"
  "appended (HistoryAppend m # evs) = m # appended evs"
  "appended (ModelCall t # evs) = appended evs"
  "appended (WeatherCall c # evs) = appended evs"
  "appended (xs @ ys) = appended xs @ appended ys"
  "appended (map WeatherCall cs) = []"
  by (induction cs) (simp_all add: appended_def)

lemma session_simps:
  "history_append r c (self, evs) =
     (self\<lparr>conversation_history := conversation_history self @ [\<lparr>role = r, content = c\<rparr>]\<rparr>,
      evs @ [HistoryAppend \<lparr>role = r, content = c\<rparr>])"
  "log_event e (self, evs) = (self, evs @ [e])"
  by (simp_all add: history_append_def log_event_def)

lemma before_first_call_None:
  assumes "before_first_call env h mt temp = None"
  shows "generation_config env mt temp = None"
  using assms by (simp add: before_first_call_def split: option.splits)

lemma first_call_unfold:
  "first_call env h um mt temp =
     (case before_first_call env h mt temp of
        Some e \<Rightarrow> Inl e
      | None \<Rightarrow> and_then (send_message env h um mt temp) first_candidate)"
  by (simp add: first_call_def)

text \<open>
  The \<open>try\<close> block on each of its paths. Before the first \<open>send_message\<close> is entered
  something raises: no effect.
\<close>

lemma chat_try_before:
  assumes "before_first_call env (map formatted (conversation_history self)) mt temp = Some e"
  shows "chat_try lib env self um mt temp = (Inl e, self, [])"
  using assms by (simp add: chat_try_def)

text \<open>The first \<open>send_message\<close> raises, or the response has no candidate.\<close>

lemma chat_try_send:
  assumes "before_first_call env (map formatted (conversation_history self)) mt temp = None"
    and "and_then (send_message env (map formatted (conversation_history self)) um mt temp)
           first_candidate = Inl e"
  shows "chat_try lib env self um mt temp = (Inl e, self, [ModelCall um])"
  using assms by (simp add: chat_try_def session_simps)

text \<open>The reply has no function call.\<close>

lemma chat_try_plain:
  assumes "before_first_call env (map formatted (conversation_history self)) mt temp = None"
    and "and_then (send_message env (map formatted (conversation_history self)) um mt temp)
           first_candidate = Inr parts"
    and "scan_parts parts [] [] = (rtext, [])"
  shows "chat_try lib env self um mt temp =
           (Inr (strip rtext),
            self\<lparr>conversation_history := conversation_history self @
               [\<lparr>role = u ''user'', content = um\<rparr>,
                \<lparr>role = u ''assistant'', content = strip rtext\<rparr>]\<rparr>,
            [ModelCall um, HistoryAppend \<lparr>role = u ''user'', content = um\<rparr>,
             HistoryAppend \<lparr>role = u ''assistant'', content = strip rtext\<rparr>])"
  using assms by (simp add: chat_try_def session_simps Let_def)

text \<open>The reply has function calls: the tool loop, then the follow-up call.\<close>

lemma chat_try_tools:
  assumes "before_first_call env (map formatted (conversation_history self)) mt temp = None"
    and "and_then (send_message env (map formatted (conversation_history self)) um mt temp)
           first_candidate = Inr parts"
    and "scan_parts parts [] [] = (rtext, tcs)" and "tcs \<noteq> []"
    and "run_tools lib env 0 tcs []
           (history_append (u ''user'') um (log_event (ModelCall um) (self, []))) = (rt, s)"
  shows "chat_try lib env self um mt temp =
           (case rt of
              Inl e \<Rightarrow> (Inl e, s)
            | Inr results \<Rightarrow>
                (case follow_up_reply env (join [10] (map snd results)) mt temp of
                   Inl e \<Rightarrow>
                     (Inl e,
                      log_event (ModelCall (join [10] (map snd results)))
                        (history_append (u ''tool'') (join [10] (map snd results))
                          (history_append (u ''assistant'') rtext s)))
                 | Inr final \<Rightarrow>
                     (Inr (strip final),
                      history_append (u ''assistant'') (strip final)
                        (log_event (ModelCall (join [10] (map snd results)))
                          (history_append (u ''tool'') (join [10] (map snd results))
                            (history_append (u ''assistant'') rtext s))))))"
  using assms before_first_call_None [OF assms(1)]
  by (simp add: chat_try_def Let_def split: sum.splits)

text \<open>The session after the tool loop of a turn.\<close>

lemma run_tools_turn:
  assumes "run_tools lib env 0 tcs []
             (history_append (u ''user'') um (log_event (ModelCall um) (self, []))) = (rt, s)"
  shows "\<exists>cities. s =
           (self\<lparr>conversation_history := conversation_history self @
               [\<lparr>role = u ''user'', content = um\<rparr>]\<rparr>,
            [ModelCall um, HistoryAppend \<lparr>role = u ''user'', content = um\<rparr>] @
            map WeatherCall cities)"
proof -
  from run_tools_session [OF assms] obtain cities where
    "fst s = fst (history_append (u ''user'') um (log_event (ModelCall um) (self, [])))"
    "snd s = snd (history_append (u ''user'') um (log_event (ModelCall um) (self, []))) @
       map WeatherCall cities"
    by blast
  then have "s = (self\<lparr>conversation_history := conversation_history self @
               [\<lparr>role = u ''user'', content = um\<rparr>]\<rparr>,
            [ModelCall um, HistoryAppend \<lparr>role = u ''user'', content = um\<rparr>] @
            map WeatherCall cities)"
    by (cases s) (simp add: session_simps)
  then show ?thesis by blast
qed

text \<open>
  The effects of the \<open>try\<close> block, in order, on each of its paths: something raises before
  the first call of the model; the first call raises; the reply has no function call; a
  function call's arguments raise; the follow-up call raises; the follow-up call returns.
\<close>

lemma chat_try_shape:
  "\<exists>r self' evs. chat_try lib env self um mt temp = (r, self', evs) \<and>
     conversation_history self' = conversation_history self @ appended evs \<and>
     ((\<exists>e. r = Inl e \<and> evs = [] \<and>
           before_first_call env (map formatted (conversation_history self)) mt temp = Some e) \<or>
      (\<exists>e. r = Inl e \<and> evs = [ModelCall um] \<and>
           first_call env (map formatted (conversation_history self)) um mt temp = Inl e) \<or>
      (\<exists>reply. r = Inr reply \<and>
           evs = [ModelCall um, HistoryAppend \<lparr>role = u ''user'', content = um\<rparr>,
                  HistoryAppend \<lparr>role = u ''assistant'', content = reply\<rparr>]) \<or>
      (\<exists>e cities. r = Inl e \<and>
           evs = [ModelCall um, HistoryAppend \<lparr>role = u ''user'', content = um\<rparr>] @
                 map WeatherCall cities) \<or>
      (\<exists>e cities text results. r = Inl e \<and>
           evs = [ModelCall um, HistoryAppend \<lparr>role = u ''user'', content = um\<rparr>] @
                 map WeatherCall cities @
                 [HistoryAppend \<lparr>role = u ''assistant'', content = text\<rparr>,
                  HistoryAppend \<lparr>role = u ''tool'', content = results\<rparr>,
                  ModelCall results]) \<or>
      (\<exists>reply cities text results. r = Inr reply \<and>
           evs = [ModelCall um, HistoryAppend \<lparr>role = u ''user'', content = um\<rparr>] @
                 map WeatherCall cities @
                 [HistoryAppend \<lparr>role = u ''assistant'', content = text\<rparr>,
                  HistoryAppend \<lparr>role = u ''tool'', content = results\<rparr>,
                  ModelCall results,
                  HistoryAppend \<lparr>role = u ''assistant'', content = reply\<rparr>]))"
proof (cases "before_first_call env (map formatted (conversation_history self)) mt temp")
  case (Some e)
  from chat_try_before [OF Some] Some show ?thesis
    by (simp add: appended_simps)
next
  case None
  show ?thesis
  proof (cases "and_then (send_message env (map formatted (conversation_history self)) um mt temp)
                  first_candidate")
    case (Inl e)
    from chat_try_send [OF None Inl] None Inl show ?thesis
      by (simp add: appended_simps first_call_unfold)
  next
    case (Inr parts)
    obtain rtext tcs where sp: "scan_parts parts [] [] = (rtext, tcs)"
      by (cases "scan_parts parts [] []")
    show ?thesis
    proof (cases "tcs = []")
      case True
      with sp have "scan_parts parts [] [] = (rtext, [])" by simp
      from chat_try_plain [OF None Inr this] show ?thesis
        by (simp add: appended_simps)
    next
      case False
      obtain rt s where rt: "run_tools lib env 0 tcs []
           (history_append (u ''user'') um (log_event (ModelCall um) (self, []))) = (rt, s)"
        by (cases "run_tools lib env 0 tcs []
           (history_append (u ''user'') um (log_event (ModelCall um) (self, [])))")
      from run_tools_turn [OF rt] obtain cities where
        s: "s = (self\<lparr>conversation_history := conversation_history self @
               [\<lparr>role = u ''user'', content = um\<rparr>]\<rparr>,
            [ModelCall um, HistoryAppend \<lparr>role = u ''user'', content = um\<rparr>] @
            map WeatherCall cities)"
        by blast
      note ct = chat_try_tools [OF None Inr sp False rt]
      show ?thesis
      proof (cases rt)
        case (Inl e)
        with ct s show ?thesis
          by (simp add: appended_simps) blast
      next
        case r1: (Inr results)
        show ?thesis
        proof (cases "follow_up_reply env (join [10] (map snd results)) mt temp")
          case (Inl e)
          with ct s r1 show ?thesis
            by (simp add: appended_simps session_simps) blast
        next
          case fu: (Inr final)
          with ct s r1 show ?thesis
            by (simp add: appended_simps session_simps) blast
        qed
      qed
    qed
  qed
qed

text \<open>The history after the \<open>try\<close> block is the history before and the appended entries.\<close>

lemma chat_try_history:
  assumes "chat_try lib env self um mt temp = (r, self', evs)"
  shows "conversation_history self' = conversation_history self @ appended evs"
  using chat_try_shape [of lib env self um mt temp] assms by auto

lemma chat_completion_unfold:
  "chat_completion_with_tools lib env self um sm mt temp =
     (case chat_try lib env self um mt temp of
        (Inr reply, s) \<Rightarrow> (Inr reply, s)
      | (Inl e, s) \<Rightarrow> (Inr (u ''Error making Gemini API call: '' @ str_exn lib e), s))"
  by (simp add: chat_completion_with_tools_def Let_def)

text \<open>
  Claim C1, as amended. In every call of \<open>chat_completion_with_tools\<close> nothing is appended
  to the history before the model is invoked: the first effect is the first
  \<open>send_message\<close>, on a chat started with the history as it was before the call. The user
  message is appended only after that call has returned a reply, as the next effect and
  before any tool runs. Every assistant entry is appended after the call of the model that
  produced it: the reply without function calls, the text of a reply with function calls
  (after the tool loop, followed by the tool entry and the follow-up message with the
  same text), and the stripped final reply after the follow-up call. When something raises
  before the first call, or the first call raises, nothing is appended and the error
  string is returned. The history afterwards is the history before followed by the
  appended entries.
\<close>

theorem chat_effects_order:
  "\<exists>r self' evs.
     chat_completion_with_tools lib env self um sm mt temp = (r, self', evs) \<and>
     conversation_history self' = conversation_history self @ appended evs \<and>
     (\<forall>e. before_first_call env (map formatted (conversation_history self)) mt temp = Some e \<longrightarrow>
          r = Inr (u ''Error making Gemini API call: '' @ str_exn lib e) \<and> evs = []) \<and>
     (before_first_call env (map formatted (conversation_history self)) mt temp = None \<longrightarrow>
        (\<forall>e. and_then (send_message env (map formatted (conversation_history self)) um mt temp)
               first_candidate = Inl e \<longrightarrow>
             r = Inr (u ''Error making Gemini API call: '' @ str_exn lib e) \<and>
             evs = [ModelCall um]) \<and>
        (\<forall>parts rtext tcs.
           and_then (send_message env (map formatted (conversation_history self)) um mt temp)
             first_candidate = Inr parts \<and>
           scan_parts parts [] [] = (rtext, tcs) \<longrightarrow>
           (tcs = [] \<longrightarrow>
              r = Inr (strip rtext) \<and>
              evs = [ModelCall um, HistoryAppend \<lparr>role = u ''user'', content = um\<rparr>,
                     HistoryAppend \<lparr>role = u ''assistant'', content = strip rtext\<rparr>]) \<and>
           (tcs \<noteq> [] \<longrightarrow>
              (\<forall>rt s.
                 run_tools lib env 0 tcs []
                   (history_append (u ''user'') um (log_event (ModelCall um) (self, []))) =
                   (rt, s) \<longrightarrow>
                 (\<exists>cities. snd s =
                    [ModelCall um, HistoryAppend \<lparr>role = u ''user'', content = um\<rparr>] @
                    map WeatherCall cities) \<and>
                 (\<forall>e. rt = Inl e \<longrightarrow>
                    r = Inr (u ''Error making Gemini API call: '' @ str_exn lib e) \<and>
                    evs = snd s) \<and>
                 (\<forall>results e.
                    rt = Inr results \<and>
                    follow_up_reply env (join [10] (map snd results)) mt temp = Inl e \<longrightarrow>
                    r = Inr (u ''Error making Gemini API call: '' @ str_exn lib e) \<and>
                    evs = snd s @
                      [HistoryAppend \<lparr>role = u ''assistant'', content = rtext\<rparr>,
                       HistoryAppend
                         \<lparr>role = u ''tool'', content = join [10] (map snd results)\<rparr>,
                       ModelCall (join [10] (map snd results))]) \<and>
                 (\<forall>results final.
                    rt = Inr results \<and>
                    follow_up_reply env (join [10] (map snd results)) mt temp = Inr final \<longrightarrow>
                    r = Inr (strip final) \<and>
                    evs = snd s @
                      [HistoryAppend \<lparr>role = u ''assistant'', content = rtext\<rparr>,
                       HistoryAppend
                         \<lparr>role = u ''tool'', content = join [10] (map snd results)\<rparr>,
                       ModelCall (join [10] (map snd results)),
                       HistoryAppend \<lparr>role = u ''assistant'', content = strip final\<rparr>])))))"
proof -
  obtain r0 self' evs where ct: "chat_try lib env self um mt temp = (r0, self', evs)"
    by (cases "chat_try lib env self um mt temp")
  let ?r = "case r0 of Inr reply \<Rightarrow> Inr reply
            | Inl e \<Rightarrow> Inr (u ''Error making Gemini API call: '' @ str_exn lib e)"
  have cc: "chat_completion_with_tools lib env self um sm mt temp = (?r, self', evs)"
    using ct by (simp add: chat_completion_unfold split: sum.splits)
  have hist: "conversation_history self' = conversation_history self @ appended evs"
    using ct by (rule chat_try_history)
  have before: "?r = Inr (u ''Error making Gemini API call: '' @ str_exn lib e) \<and> evs = []"
    if "before_first_call env (map formatted (conversation_history self)) mt temp = Some e"
    for e
    using chat_try_before [OF that, of lib um] ct by simp
  have send: "?r = Inr (u ''Error making Gemini API call: '' @ str_exn lib e) \<and>
              evs = [ModelCall um]"
    if "before_first_call env (map formatted (conversation_history self)) mt temp = None"
       "and_then (send_message env (map formatted (conversation_history self)) um mt temp)
          first_candidate = Inl e"
    for e
    using chat_try_send [OF that, of lib] ct by simp
  have plain: "?r = Inr (strip rtext) \<and>
              evs = [ModelCall um, HistoryAppend \<lparr>role = u ''user'', content = um\<rparr>,
                     HistoryAppend \<lparr>role = u ''assistant'', content = strip rtext\<rparr>]"
    if "before_first_call env (map formatted (conversation_history self)) mt temp = None"
       "and_then (send_message env (map formatted (conversation_history self)) um mt temp)
          first_candidate = Inr parts"
       "scan_parts parts [] [] = (rtext, tcs)" "tcs = []"
    for parts rtext tcs
  proof -
    from that have "scan_parts parts [] [] = (rtext, [])" by simp
    from chat_try_plain [OF that(1,2) this, of lib] ct show ?thesis by simp
  qed
  have tools:
    "(\<exists>cities. snd s =
        [ModelCall um, HistoryAppend \<lparr>role = u ''user'', content = um\<rparr>] @
        map WeatherCall cities) \<and>
     (\<forall>e. rt = Inl e \<longrightarrow>
        ?r = Inr (u ''Error making Gemini API call: '' @ str_exn lib e) \<and> evs = snd s) \<and>
     (\<forall>results e.
        rt = Inr results \<and>
        follow_up_reply env (join [10] (map snd results)) mt temp = Inl e \<longrightarrow>
        ?r = Inr (u ''Error making Gemini API call: '' @ str_exn lib e) \<and>
        evs = snd s @
          [HistoryAppend \<lparr>role = u ''assistant'', content = rtext\<rparr>,
           HistoryAppend \<lparr>role = u ''tool'', content = join [10] (map snd results)\<rparr>,
           ModelCall (join [10] (map snd results))]) \<and>
     (\<forall>results final.
        rt = Inr results \<and>
        follow_up_reply env (join [10] (map snd results)) mt temp = Inr final \<longrightarrow>
        ?r = Inr (strip final) \<and>
        evs = snd s @
          [HistoryAppend \<lparr>role = u ''assistant'', content = rtext\<rparr>,
           HistoryAppend \<lparr>role = u ''tool'', content = join [10] (map snd results)\<rparr>,
           ModelCall (join [10] (map snd results)),
           HistoryAppend \<lparr>role = u ''assistant'', content = strip final\<rparr>])"
    if "before_first_call env (map formatted (conversation_history self)) mt temp = None"
       "and_then (send_message env (map formatted (conversation_history self)) um mt temp)
          first_candidate = Inr parts"
       "scan_parts parts [] [] = (rtext, tcs)" "tcs \<noteq> []"
       "run_tools lib env 0 tcs []
          (history_append (u ''user'') um (log_event (ModelCall um) (self, []))) = (rt, s)"
    for parts rtext tcs rt s
  proof -
    from run_tools_turn [OF that(5)] obtain cities where
      s: "s = (self\<lparr>conversation_history := conversation_history self @
               [\<lparr>role = u ''user'', content = um\<rparr>]\<rparr>,
            [ModelCall um, HistoryAppend \<lparr>role = u ''user'', content = um\<rparr>] @
            map WeatherCall cities)"
      by blast
    note path = chat_try_tools [OF that]
    have 1: "\<exists>cities. snd s =
        [ModelCall um, HistoryAppend \<lparr>role = u ''user'', content = um\<rparr>] @
        map WeatherCall cities"
      using s by auto
    have 2: "?r = Inr (u ''Error making Gemini API call: '' @ str_exn lib e) \<and> evs = snd s"
      if "rt = Inl e" for e
      using path ct that by (cases s) simp
    have 3: "?r = Inr (u ''Error making Gemini API call: '' @ str_exn lib e) \<and>
        evs = snd s @
          [HistoryAppend \<lparr>role = u ''assistant'', content = rtext\<rparr>,
           HistoryAppend \<lparr>role = u ''tool'', content = join [10] (map snd results)\<rparr>,
           ModelCall (join [10] (map snd results))]"
      if "rt = Inr results"
         "follow_up_reply env (join [10] (map snd results)) mt temp = Inl e"
      for results e
      using path ct that by (cases s) (simp add: session_simps)
    have 4: "?r = Inr (strip final) \<and>
        evs = snd s @
          [HistoryAppend \<lparr>role = u ''assistant'', content = rtext\<rparr>,
           HistoryAppend \<lparr>role = u ''tool'', content = join [10] (map snd results)\<rparr>,
           ModelCall (join [10] (map snd results)),
           HistoryAppend \<lparr>role = u ''assistant'', content = strip final\<rparr>]"
      if "rt = Inr results"
         "follow_up_reply env (join [10] (map snd results)) mt temp = Inr final"
      for results final
      using path ct that by (cases s) (simp add: session_simps)
    from 1 2 3 4 show ?thesis by blast
  qed
  show ?thesis
    apply (rule exI [of _ ?r], rule exI [of _ self'], rule exI [of _ evs])
    apply (intro conjI allI impI)
    subgoal by (rule cc)
    subgoal by (rule hist)
    subgoal using before by blast
    subgoal using before by blast
    subgoal using send by blast
    subgoal using send by blast
    subgoal using plain by blast
    subgoal using plain by blast
    subgoal using tools by blast
    subgoal using tools by blast
    subgoal using tools by blast
    subgoal using tools by blast
    subgoal using tools by blast
    subgoal using tools by blast
    subgoal using tools by blast
    done
qed

text \<open>The definitions a concrete run unfolds.\<close>

lemmas ex_defs = example_lib_def example_self_def remote_plain_def remote_down_def remote_weather_def
  remote_misconfigured_def weather_json_def weather_json_no_description_def example_turn_def

lemmas run_defs = chat_completion_with_tools_def chat_try_def before_first_call_def
  first_candidate_def first_call_def log_event_def history_append_def
  Let_def formatted_def tool_city_def py_get_def get_weather_def get_weather_try_def and_then_def
  py_strip_def subscript_key_def subscript_0_def weather_line_def fmt_def NA_def strip_def
  lstrip_def rstrip_def py_isspace_def not_implemented_def type_name_def

theorem chat_effects_order_witness:
  "before_first_call (remote_weather (PDict [(u ''city'', PStr (u ''Paris''))]) weather_json)
     (map formatted (conversation_history example_self)) 200 0x3FE6666666666666 = None \<and>
   and_then
     (send_message (remote_weather (PDict [(u ''city'', PStr (u ''Paris''))]) weather_json)
        (map formatted (conversation_history example_self)) (u ''weather?'') 200
        0x3FE6666666666666)
     first_candidate =
     Inr [FunctionCall (u ''get_weather'') (PDict [(u ''city'', PStr (u ''Paris''))])] \<and>
   chat_completion_with_tools example_lib
       (remote_weather (PDict [(u ''city'', PStr (u ''Paris''))]) weather_json)
       example_self (u ''weather?'') None 200 0x3FE6666666666666 =
     (Inr (u ''Clear skies.''),
      example_self\<lparr>conversation_history :=
        [\<lparr>role = u ''user'', content = u ''weather?''\<rparr>,
         \<lparr>role = u ''assistant'', content = []\<rparr>,
         \<lparr>role = u ''tool'', content = [0x1F324, 0xFE0F] @
            u '' Weather in Paris: 18'' @ [0xB0] @
            u ''C, Clear, Humidity: 40%, Wind: 10 km/h, Feels like: 17'' @ [0xB0] @ u ''C''\<rparr>,
         \<lparr>role = u ''assistant'', content = u ''Clear skies.''\<rparr>]\<rparr>,
      [ModelCall (u ''weather?''),
       HistoryAppend \<lparr>role = u ''user'', content = u ''weather?''\<rparr>,
       WeatherCall (PStr (u ''Paris'')),
       HistoryAppend \<lparr>role = u ''assistant'', content = []\<rparr>,
       HistoryAppend \<lparr>role = u ''tool'', content = [0x1F324, 0xFE0F] @
            u '' Weather in Paris: 18'' @ [0xB0] @
            u ''C, Clear, Humidity: 40%, Wind: 10 km/h, Feels like: 17'' @ [0xB0] @ u ''C''\<rparr>,
       ModelCall ([0x1F324, 0xFE0F] @
            u '' Weather in Paris: 18'' @ [0xB0] @
            u ''C, Clear, Humidity: 40%, Wind: 10 km/h, Feels like: 17'' @ [0xB0] @ u ''C''),
       HistoryAppend \<lparr>role = u ''assistant'', content = u ''Clear skies.''\<rparr>])"
  using chat_effects_order [of example_lib
      "remote_weather (PDict [(u ''city'', PStr (u ''Paris''))]) weather_json"
      example_self "u ''weather?''" None 200 "0x3FE6666666666666"]
  by (simp add: ex_defs run_defs u_def)

text \<open>
  The claim as stated (the user message is in the history before the model is invoked)
  fails on a turn without function calls: the message to the model comes first.
\<close>

theorem user_message_appended_after_model_call:
  "chat_completion_with_tools example_lib remote_plain example_self (u ''hi'') None 200
      0x3FE6666666666666 =
     (Inr (u ''Hello!''),
      example_self\<lparr>conversation_history :=
        [\<lparr>role = u ''user'', content = u ''hi''\<rparr>,
         \<lparr>role = u ''assistant'', content = u ''Hello!''\<rparr>]\<rparr>,
      [ModelCall (u ''hi''),
       HistoryAppend \<lparr>role = u ''user'', content = u ''hi''\<rparr>,
       HistoryAppend \<lparr>role = u ''assistant'', content = u ''Hello!''\<rparr>]) \<and>
   \<not> appended_before_first_call \<lparr>role = u ''user'', content = u ''hi''\<rparr>
       (snd (snd (chat_completion_with_tools example_lib remote_plain example_self (u ''hi'')
          None 200 0x3FE6666666666666)))"
  by (simp add: ex_defs run_defs u_def appended_before_first_call_def)

text \<open>When the arguments of the first call cannot be built, the model is not called.\<close>

lemma chat_misconfigured_example:
  "chat_completion_with_tools example_lib remote_misconfigured example_self (u ''hi'') None 200
      0x3FE6666666666666 =
     (Inr (u ''Error making Gemini API call: ToolConfig''), example_self, [])"
  by (simp add: ex_defs run_defs u_def)

text \<open>
  Claim C10. If the first call of the model raises (the \<open>send_message\<close> itself, the start of
  the chat or the evaluation of the arguments before it, or the reading of the first
  candidate after it), \<open>chat_completion_with_tools\<close> returns the error string made from the
  exception, and the object, with its conversation history, is exactly as it was before
  the call: nothing is appended. The only effect is the call of the model, when it was
  entered.
\<close>

theorem first_call_raises_history_unchanged:
  assumes "first_call env (map formatted (conversation_history self)) um mt temp = Inl e"
  shows "chat_completion_with_tools lib env self um sm mt temp =
           (Inr (u ''Error making Gemini API call: '' @ str_exn lib e), self,
            (if before_first_call env (map formatted (conversation_history self)) mt temp = None
             then [ModelCall um] else []))"
proof (cases "before_first_call env (map formatted (conversation_history self)) mt temp")
  case None
  with assms have "and_then
      (send_message env (map formatted (conversation_history self)) um mt temp)
      first_candidate = Inl e"
    by (simp add: first_call_unfold)
  from chat_try_send [OF None this, of lib] None show ?thesis
    by (simp add: chat_completion_unfold)
next
  case (Some e')
  with assms have "e' = e" by (simp add: first_call_unfold)
  with chat_try_before [OF Some, of lib um] Some show ?thesis
    by (simp add: chat_completion_unfold)
qed

theorem first_call_raises_history_unchanged_witness:
  "first_call remote_down (map formatted (conversation_history example_self)) (u ''hi'') 200
      0x3FE6666666666666 = Inl (Failure (u ''503 Service Unavailable'')) \<and>
   chat_completion_with_tools example_lib remote_down example_self (u ''hi'') None 200
      0x3FE6666666666666 =
     (Inr (u ''Error making Gemini API call: 503 Service Unavailable''), example_self,
      [ModelCall (u ''hi'')])"
proof -
  have h: "first_call remote_down (map formatted (conversation_history example_self)) (u ''hi'')
      200 0x3FE6666666666666 = Inl (Failure (u ''503 Service Unavailable''))"
    by (simp add: remote_down_def first_call_def before_first_call_def and_then_def)
  show ?thesis
    using h first_call_raises_history_unchanged [OF h, of example_lib None]
    by (simp add: example_lib_def remote_down_def before_first_call_def u_def)
qed

text \<open>
  Claim C5. For every input \<open>chat_completion_with_tools\<close> returns a string and raises
  nothing. Whenever its \<open>try\<close> block raises, and so when the first call of the model or the
  follow-up call raises, the string returned is the text of the exception behind the
  prefix \<open>Error making Gemini API call: \<close>.
\<close>

theorem chat_completion_never_raises:
  "\<exists>reply. fst (chat_completion_with_tools lib env self um sm mt temp) = Inr reply \<and>
     (\<forall>e. fst (chat_try lib env self um mt temp) = Inl e \<longrightarrow>
          reply = u ''Error making Gemini API call: '' @ str_exn lib e) \<and>
     (\<forall>e. first_call env (map formatted (conversation_history self)) um mt temp = Inl e \<longrightarrow>
          reply = u ''Error making Gemini API call: '' @ str_exn lib e) \<and>
     (\<forall>e parts rtext tcs results s.
          first_call env (map formatted (conversation_history self)) um mt temp = Inr parts \<and>
          scan_parts parts [] [] = (rtext, tcs) \<and> tcs \<noteq> [] \<and>
          run_tools lib env 0 tcs []
            (history_append (u ''user'') um (log_event (ModelCall um) (self, []))) =
            (Inr results, s) \<and>
          follow_up_reply env (join [10] (map snd results)) mt temp = Inl e \<longrightarrow>
          reply = u ''Error making Gemini API call: '' @ str_exn lib e)"
proof (cases "chat_try lib env self um mt temp")
  case (fields r self' evs)
  have first: "fst (chat_try lib env self um mt temp) = Inl e"
    if "first_call env (map formatted (conversation_history self)) um mt temp = Inl e" for e
  proof (cases "before_first_call env (map formatted (conversation_history self)) mt temp")
    case None
    with that have "and_then
        (send_message env (map formatted (conversation_history self)) um mt temp)
        first_candidate = Inl e"
      by (simp add: first_call_unfold)
    from chat_try_send [OF None this, of lib] show ?thesis by simp
  next
    case (Some e')
    with that have "e' = e" by (simp add: first_call_unfold)
    with chat_try_before [OF Some, of lib um] show ?thesis by simp
  qed
  have follow: "fst (chat_try lib env self um mt temp) = Inl e"
    if "first_call env (map formatted (conversation_history self)) um mt temp = Inr parts"
       "scan_parts parts [] [] = (rtext, tcs)" "tcs \<noteq> []"
       "run_tools lib env 0 tcs []
            (history_append (u ''user'') um (log_event (ModelCall um) (self, []))) =
            (Inr results, s)"
       "follow_up_reply env (join [10] (map snd results)) mt temp = Inl e"
    for e parts rtext tcs results s
  proof -
    from that(1) have b: "before_first_call env (map formatted (conversation_history self))
        mt temp = None"
      and snd: "and_then
        (send_message env (map formatted (conversation_history self)) um mt temp)
        first_candidate = Inr parts"
      by (simp_all add: first_call_unfold split: option.splits)
    from chat_try_tools [OF b snd that(2,3,4)] that(5) show ?thesis by simp
  qed
  show ?thesis
  proof (cases r)
    case (Inl e)
    with fields first follow show ?thesis
      by (simp add: chat_completion_unfold) blast
  next
    case (Inr reply)
    with fields first follow show ?thesis
      by (simp add: chat_completion_unfold) blast
  qed
qed

theorem chat_completion_never_raises_witness:
  "fst (chat_completion_with_tools example_lib remote_down example_self (u ''hi'') None 200
      0x3FE6666666666666) = Inr (u ''Error making Gemini API call: 503 Service Unavailable'') \<and>
   fst (chat_try example_lib remote_down example_self (u ''hi'') 200 0x3FE6666666666666) =
     Inl (Failure (u ''503 Service Unavailable'')) \<and>
   first_call remote_down (map formatted (conversation_history example_self)) (u ''hi'') 200
      0x3FE6666666666666 = Inl (Failure (u ''503 Service Unavailable''))"
  using chat_completion_never_raises [of example_lib remote_down example_self "u ''hi''" None 200
      "0x3FE6666666666666"]
  by (simp add: ex_defs run_defs u_def)

section \<open>The conversational client: sequences of turns\<close>

lemma roles_distinct:
  "u ''assistant'' \<noteq> u ''user''" "u ''tool'' \<noteq> u ''user''" "u ''user'' \<noteq> u ''assistant''"
  "u ''tool'' \<noteq> u ''assistant''"
  by (simp_all add: u_def)

text \<open>
  A call that returns from its \<open>try\<close> block appends the user message first and the returned
  reply last; between them there is no user entry.
\<close>

lemma chat_try_returns:
  assumes "chat_try lib env self um mt temp = (Inr reply, self', evs)"
  shows "\<exists>mid. conversation_history self' =
           conversation_history self @
           \<lparr>role = u ''user'', content = um\<rparr> # mid @ [\<lparr>role = u ''assistant'', content = reply\<rparr>] \<and>
           entries_with_role (u ''user'') mid = 0"
proof -
  from chat_try_shape [of lib env self um mt temp] assms
  have h: "conversation_history self' = conversation_history self @ appended evs"
    and sh: "evs = [ModelCall um, HistoryAppend \<lparr>role = u ''user'', content = um\<rparr>,
                  HistoryAppend \<lparr>role = u ''assistant'', content = reply\<rparr>] \<or>
      (\<exists>cities text results.
           evs = [ModelCall um, HistoryAppend \<lparr>role = u ''user'', content = um\<rparr>] @
                 map WeatherCall cities @
                 [HistoryAppend \<lparr>role = u ''assistant'', content = text\<rparr>,
                  HistoryAppend \<lparr>role = u ''tool'', content = results\<rparr>,
                  ModelCall results,
                  HistoryAppend \<lparr>role = u ''assistant'', content = reply\<rparr>])"
    by auto
  from sh show ?thesis
  proof
    assume "evs = [ModelCall um, HistoryAppend \<lparr>role = u ''user'', content = um\<rparr>,
                  HistoryAppend \<lparr>role = u ''assistant'', content = reply\<rparr>]"
    with h have "conversation_history self' = conversation_history self @
           \<lparr>role = u ''user'', content = um\<rparr> # [] @ [\<lparr>role = u ''assistant'', content = reply\<rparr>]"
      by (simp add: appended_simps)
    moreover have "entries_with_role (u ''user'') [] = 0" by (simp add: entries_with_role_def)
    ultimately show ?thesis by blast
  next
    assume "\<exists>cities text results.
           evs = [ModelCall um, HistoryAppend \<lparr>role = u ''user'', content = um\<rparr>] @
                 map WeatherCall cities @
                 [HistoryAppend \<lparr>role = u ''assistant'', content = text\<rparr>,
                  HistoryAppend \<lparr>role = u ''tool'', content = results\<rparr>,
                  ModelCall results,
                  HistoryAppend \<lparr>role = u ''assistant'', content = reply\<rparr>]"
    then obtain cities rtext results where
      "evs = [ModelCall um, HistoryAppend \<lparr>role = u ''user'', content = um\<rparr>] @
                 map WeatherCall cities @
                 [HistoryAppend \<lparr>role = u ''assistant'', content = rtext\<rparr>,
                  HistoryAppend \<lparr>role = u ''tool'', content = results\<rparr>,
                  ModelCall results,
                  HistoryAppend \<lparr>role = u ''assistant'', content = reply\<rparr>]"
      by blast
    with h have "conversation_history self' = conversation_history self @
           \<lparr>role = u ''user'', content = um\<rparr> #
           [\<lparr>role = u ''assistant'', content = rtext\<rparr>, \<lparr>role = u ''tool'', content = results\<rparr>] @
           [\<lparr>role = u ''assistant'', content = reply\<rparr>]"
      by (simp add: appended_simps)
    moreover have "entries_with_role (u ''user'')
        [\<lparr>role = u ''assistant'', content = rtext\<rparr>, \<lparr>role = u ''tool'', content = results\<rparr>] = 0"
      by (simp add: entries_with_role_def roles_distinct)
    ultimately show ?thesis by blast
  qed
qed

lemma entries_with_role_append:
  "entries_with_role r (xs @ ys) = entries_with_role r xs + entries_with_role r ys"
  by (simp add: entries_with_role_def)

lemma entries_with_role_Cons:
  "entries_with_role r (m # ms) = (if role m = r then 1 else 0) + entries_with_role r ms"
  by (simp add: entries_with_role_def)

text \<open>
  Claim C4, as amended. For every sequence of N calls of \<open>chat_completion_with_tools\<close> none
  of which leaves its \<open>try\<close> block by an exception, the entries added to the history hold
  the user message and the returned reply of each call, in the order of the calls (as a
  subsequence: a call with function calls adds an assistant and a tool entry between
  them); they hold exactly N entries with role \<open>user\<close> and at least N with role
  \<open>assistant\<close>.
\<close>

theorem history_after_turns:
  assumes "turns_ok lib self ts"
  shows "\<exists>replies self' new.
           run_turns lib self ts = Inr (replies, self') \<and> length replies = length ts \<and>
           conversation_history self' = conversation_history self @ new \<and>
           subseq (exchanges ts replies) new \<and>
           entries_with_role (u ''user'') new = length ts \<and>
           length ts \<le> entries_with_role (u ''assistant'') new"
  using assms
proof (induction ts arbitrary: self)
  case Nil
  then show ?case by (simp add: entries_with_role_def)
next
  case (Cons t ts)
  let ?ct = "chat_try lib (t_remote t) self (t_user_message t) (t_max_tokens t) (t_temperature t)"
  from Cons.prems obtain reply self1 evs where
    ct: "?ct = (Inr reply, self1, evs)" and ok: "turns_ok lib self1 ts"
    by (auto split: prod.splits sum.splits)
  from ct have call: "call_turn lib self t = (Inr reply, self1, evs)"
    by (simp add: call_turn_def chat_completion_unfold)
  from chat_try_returns [OF ct] obtain mid where
    h1: "conversation_history self1 = conversation_history self @
           \<lparr>role = u ''user'', content = t_user_message t\<rparr> # mid @
           [\<lparr>role = u ''assistant'', content = reply\<rparr>]"
    and mid: "entries_with_role (u ''user'') mid = 0"
    by blast
  from Cons.IH [OF ok] obtain replies self' new where
    run: "run_turns lib self1 ts = Inr (replies, self')" and
    len: "length replies = length ts" and
    h2: "conversation_history self' = conversation_history self1 @ new" and
    sub: "subseq (exchanges ts replies) new" and
    us: "entries_with_role (u ''user'') new = length ts" and
    as: "length ts \<le> entries_with_role (u ''assistant'') new"
    by blast
  let ?new = "\<lparr>role = u ''user'', content = t_user_message t\<rparr> # mid @
           \<lparr>role = u ''assistant'', content = reply\<rparr> # new"
  have 1: "run_turns lib self (t # ts) = Inr (reply # replies, self')"
    using call run by simp
  have 2: "conversation_history self' = conversation_history self @ ?new"
    using h1 h2 by simp
  have "subseq (\<lparr>role = u ''assistant'', content = reply\<rparr> # exchanges ts replies)
          (mid @ \<lparr>role = u ''assistant'', content = reply\<rparr> # new)"
    using sub by (intro subseq_drop_many) simp
  then have 3: "subseq (exchanges (t # ts) (reply # replies)) ?new"
    by simp
  have 4: "entries_with_role (u ''user'') ?new = length (t # ts)"
    using mid us by (simp add: entries_with_role_append entries_with_role_Cons roles_distinct)
  have 5: "length (t # ts) \<le> entries_with_role (u ''assistant'') ?new"
    using as by (simp add: entries_with_role_append entries_with_role_Cons)
  from 1 2 3 4 5 len show ?case
    by (intro exI [of _ "reply # replies"] exI [of _ self'] exI [of _ ?new]) simp
qed

theorem history_after_turns_witness:
  "turns_ok example_lib example_self
     [example_turn remote_plain (u ''hi''),
      example_turn (remote_weather PNone weather_json) (u ''weather?'')] \<and>
   run_turns example_lib example_self
     [example_turn remote_plain (u ''hi''),
      example_turn (remote_weather PNone weather_json) (u ''weather?'')] =
     Inr ([u ''Hello!'', u ''Clear skies.''],
       example_self\<lparr>conversation_history :=
        [\<lparr>role = u ''user'', content = u ''hi''\<rparr>,
         \<lparr>role = u ''assistant'', content = u ''Hello!''\<rparr>,
         \<lparr>role = u ''user'', content = u ''weather?''\<rparr>,
         \<lparr>role = u ''assistant'', content = []\<rparr>,
         \<lparr>role = u ''tool'', content = [0x1F324, 0xFE0F] @
            u '' Weather in Unknown: 18'' @ [0xB0] @
            u ''C, Clear, Humidity: 40%, Wind: 10 km/h, Feels like: 17'' @ [0xB0] @ u ''C''\<rparr>,
         \<lparr>role = u ''assistant'', content = u ''Clear skies.''\<rparr>]\<rparr>)"
proof -
  have h: "turns_ok example_lib example_self
     [example_turn remote_plain (u ''hi''),
      example_turn (remote_weather PNone weather_json) (u ''weather?'')]"
    by (simp add: ex_defs run_defs u_def)
  show ?thesis
    using h history_after_turns [OF h]
    by (simp add: ex_defs run_defs call_turn_def u_def)
qed

text \<open>
  The claim as stated fails for a call whose first call of the model raises: the call
  returns the error string and the history stays empty, with no user entry for one call.
\<close>

theorem history_after_failed_turn:
  "run_turns example_lib example_self [example_turn remote_down (u ''hi'')] =
     Inr ([u ''Error making Gemini API call: 503 Service Unavailable''], example_self) \<and>
   conversation_history example_self = [] \<and>
   entries_with_role (u ''user'') (conversation_history example_self) <
     length [example_turn remote_down (u ''hi'')]"
  by (simp add: ex_defs run_defs call_turn_def u_def entries_with_role_def)

section \<open>The conversational client: the weather tool\<close>

text \<open>
  When the answer of the endpoint has a description, each of the four fields read with
  \<open>cur.get\<close> is printed as \<open>N/A\<close> when it is absent.
\<close>

lemma get_weather_absent_fields:
  assumes "http (strip city) = Inr (PDict d)"
    and "map_of d (u ''current_condition'') = Some (PList (PDict cur # others))"
    and "map_of cur (u ''weatherDesc'') = Some (PList (PDict wd # others'))"
    and "map_of wd (u ''value'') = Some condition"
  shows "get_weather lib http (PStr city) =
           weather_line lib (PStr city)
             (case map_of cur (u ''temp_C'') of Some v \<Rightarrow> v | None \<Rightarrow> NA)
             condition
             (case map_of cur (u ''humidity'') of Some v \<Rightarrow> v | None \<Rightarrow> NA)
             (case map_of cur (u ''windspeedKmph'') of Some v \<Rightarrow> v | None \<Rightarrow> NA)
             (case map_of cur (u ''FeelsLikeC'') of Some v \<Rightarrow> v | None \<Rightarrow> NA)"
  using assms
  by (simp add: get_weather_def get_weather_try_def and_then_def py_strip_def subscript_key_def
      subscript_0_def py_get_def)

text \<open>
  The description is read with \<open>cur["weatherDesc"][0]["value"]\<close>: when the key is absent
  the \<open>KeyError\<close> is caught and the error string is returned.
\<close>

lemma get_weather_absent_description:
  assumes "http (strip city) = Inr (PDict d)"
    and "map_of d (u ''current_condition'') = Some (PList (PDict cur # others))"
    and "map_of cur (u ''weatherDesc'') = None"
  shows "get_weather lib http (PStr city) =
           u ''Error fetching weather for '' @ city @ u '': '' @
           str_exn lib (KeyError (PStr (u ''weatherDesc'')))"
  using assms
  by (simp add: get_weather_def get_weather_try_def and_then_def py_strip_def subscript_key_def
      subscript_0_def py_get_def fmt_def)

text \<open>
  Claim C3. An answer of the weather endpoint in which one of the five fields is absent
  should give the formatted line with \<open>N/A\<close> for that field. For the answer that has the
  temperature, the humidity, the wind speed and the feels-like temperature and no
  \<open>weatherDesc\<close>, \<open>get_weather\<close> returns the error string instead.
\<close>

theorem get_weather_without_description:
  "get_weather example_lib (\<lambda>c. Inr weather_json_no_description) (PStr (u ''Paris'')) =
     u ''Error fetching weather for Paris: '' @ [39] @ u ''weatherDesc'' @ [39]"
  by (simp add: ex_defs run_defs u_def)

text \<open>The same answer with the description gives the formatted line.\<close>

lemma get_weather_full_example:
  "get_weather example_lib (\<lambda>c. Inr weather_json) (PStr (u ''Paris'')) =
     [0x1F324, 0xFE0F] @ u '' Weather in Paris: 18'' @ [0xB0] @
     u ''C, Clear, Humidity: 40%, Wind: 10 km/h, Feels like: 17'' @ [0xB0] @ u ''C''"
  by (simp add: ex_defs run_defs u_def)

section \<open>The conversational client: the arguments of a function call\<close>

text \<open>
  A string that \<open>json.loads\<close> rejects is the city; no payload gives \<open>Unknown\<close>; a mapping
  gives its \<open>city\<close> entry or \<open>Unknown\<close>. A string that holds JSON other than an object
  raises: the parsed value has no \<open>get\<close>.
\<close>

lemma tool_city_not_json:
  "json_loads lib s = Inl e \<Longrightarrow> tool_city lib (PStr s) = Inr (PStr s)"
  by (simp add: tool_city_def py_get_def)

lemma tool_city_None: "tool_city lib PNone = Inr (PStr (u ''Unknown''))"
  by (simp add: tool_city_def py_get_def)

lemma tool_city_mapping:
  "tool_city lib (PDict kvs) =
     Inr (case map_of kvs (u ''city'') of Some v \<Rightarrow> v | None \<Rightarrow> PStr (u ''Unknown''))"
  by (simp add: tool_city_def py_get_def)

lemma tool_city_json_not_object:
  assumes "json_loads lib s = Inr v" "\<And>kvs. v \<noteq> PDict kvs"
  shows "tool_city lib (PStr s) = Inl (AttributeError v (u ''get''))"
  using assms by (cases v) (auto simp: tool_city_def py_get_def)

text \<open>When the city is found, the loop calls \<open>get_weather\<close> once for the function call.\<close>

lemma run_tools_one_weather_call:
  assumes "tool_city lib arguments = Inr city"
  shows "run_tools lib env i [(u ''get_weather'', arguments)] acc (self, evs) =
           (Inr (acc @ [(u ''get_weather'', get_weather lib (weather_http env i) city)]),
            self, evs @ [WeatherCall city])"
  using assms by (simp add: log_event_def)

text \<open>
  Claim C9. A \<open>get_weather\<close> function call should never fail the turn on a malformed
  argument payload, and the weather lookup should be called once for it. For the payload
  \<open>"123"\<close>, a string that holds the JSON number 123, the turn returns the error string,
  \<open>get_weather\<close> is not called, and the user message stays in the history without a reply.
\<close>

theorem get_weather_call_with_json_number:
  "chat_completion_with_tools example_lib (remote_weather (PStr (u ''123'')) weather_json)
      example_self (u ''weather?'') None 200 0x3FE6666666666666 =
     (Inr (u ''Error making Gemini API call: '' @ [39] @ u ''int'' @ [39] @
           u '' object has no attribute '' @ [39] @ u ''get'' @ [39]),
      example_self\<lparr>conversation_history := [\<lparr>role = u ''user'', content = u ''weather?''\<rparr>]\<rparr>,
      [ModelCall (u ''weather?''),
       HistoryAppend \<lparr>role = u ''user'', content = u ''weather?''\<rparr>])"
  by (simp add: ex_defs run_defs u_def)

section \<open>Construction with a missing credential\<close>

text \<open>
  The claim as stated (the dispatcher raises at construction when a credential is
  missing) fails: with none of the three variables set, \<open>Tools.__init__\<close> returns the object,
  without a messaging client.
\<close>

theorem Tools_init_without_credentials:
  "getenv example_world (u ''TWILIO_ACCOUNT_SID'') = None \<and>
   getenv example_world (u ''TWILIO_AUTH_TOKEN'') = None \<and>
   getenv example_world (u ''TWILIO_WHATSAPP_FROM'') = None \<and>
   Tools_init example_world = Inr example_tools \<and> client example_tools = None"
  by (simp add: Tools_init_def example_world_def example_tools_def heartbeat_job_def and_then_def
      scheduler_start_def add_job_def truthy_def Let_def)

lemma Tools_init_client:
  assumes "Tools_init w = Inr self"
  shows "from_whatsapp self = getenv w (u ''TWILIO_WHATSAPP_FROM'') \<and>
         (client self = None \<longleftrightarrow>
            \<not> (truthy (getenv w (u ''TWILIO_ACCOUNT_SID'')) \<and>
               truthy (getenv w (u ''TWILIO_AUTH_TOKEN''))))"
  using assms
  by (auto simp: Tools_init_def Let_def and_then_def truthy_def
      split: sum.splits option.splits prod.splits if_splits)

lemma Tools_init_returns:
  assumes "store_error w = None"
  shows "\<exists>self. Tools_init w = Inr self"
  using assms
  by (simp add: Tools_init_def Let_def and_then_def scheduler_start_def add_job_def)

lemma send_whatsapp_not_configured:
  assumes "client self = None \<or> \<not> truthy (from_whatsapp self)"
  shows "send_whatsapp lib w self to_number message = Inr credentials_missing"
  using assms by (auto simp: send_whatsapp_def truthy_def split: option.splits)

text \<open>
  Claim C2, as amended. Constructing the conversational client with no API key (neither
  the parameter nor \<open>GEMINI_API_KEY\<close> is a non-empty string) raises \<open>ValueError\<close> at
  construction time. Constructing the dispatcher does not raise for a missing credential:
  whenever the job store works the object is built, and when \<open>TWILIO_ACCOUNT_SID\<close>,
  \<open>TWILIO_AUTH_TOKEN\<close> or \<open>TWILIO_WHATSAPP_FROM\<close> is missing every later \<open>send_whatsapp\<close>
  returns the string that says the credentials are not configured.
\<close>

theorem construction_with_missing_credential:
  "(\<not> truthy api_key_arg \<and> \<not> truthy (os_getenv (u ''GEMINI_API_KEY'')) \<longrightarrow>
      OpenAIClientWithMemoryAndTools_init os_getenv sdk_error api_key_arg model_arg =
        Inl (ValueError api_key_required)) \<and>
   (store_error w = None \<longrightarrow>
      (\<exists>self. Tools_init w = Inr self \<and>
         (\<not> (truthy (getenv w (u ''TWILIO_ACCOUNT_SID'')) \<and>
             truthy (getenv w (u ''TWILIO_AUTH_TOKEN'')) \<and>
             truthy (getenv w (u ''TWILIO_WHATSAPP_FROM''))) \<longrightarrow>
          (\<forall>w' to_number message.
             send_whatsapp lib w' self to_number message = Inr credentials_missing))))"
proof (intro conjI impI)
  assume "\<not> truthy api_key_arg \<and> \<not> truthy (os_getenv (u ''GEMINI_API_KEY''))"
  then show "OpenAIClientWithMemoryAndTools_init os_getenv sdk_error api_key_arg model_arg =
        Inl (ValueError api_key_required)"
    by (auto simp: OpenAIClientWithMemoryAndTools_init_def truthy_def split: option.splits)
next
  assume "store_error w = None"
  then obtain self where s: "Tools_init w = Inr self"
    using Tools_init_returns by blast
  have "send_whatsapp lib w' self to_number message = Inr credentials_missing"
    if "\<not> (truthy (getenv w (u ''TWILIO_ACCOUNT_SID'')) \<and>
             truthy (getenv w (u ''TWILIO_AUTH_TOKEN'')) \<and>
             truthy (getenv w (u ''TWILIO_WHATSAPP_FROM'')))"
    for w' to_number message
  proof -
    from Tools_init_client [OF s] that
    have "client self = None \<or> \<not> truthy (from_whatsapp self)" by auto
    then show ?thesis by (rule send_whatsapp_not_configured)
  qed
  with s show "\<exists>self. Tools_init w = Inr self \<and>
         (\<not> (truthy (getenv w (u ''TWILIO_ACCOUNT_SID'')) \<and>
             truthy (getenv w (u ''TWILIO_AUTH_TOKEN'')) \<and>
             truthy (getenv w (u ''TWILIO_WHATSAPP_FROM''))) \<longrightarrow>
          (\<forall>w' to_number message.
             send_whatsapp lib w' self to_number message = Inr credentials_missing))"
    by blast
qed

theorem construction_with_missing_credential_witness:
  "\<not> truthy None \<and> \<not> truthy (getenv example_world (u ''GEMINI_API_KEY'')) \<and>
   OpenAIClientWithMemoryAndTools_init (getenv example_world) None None (u ''gemini-2.5-flash'') =
     Inl (ValueError api_key_required) \<and>
   store_error example_world = None \<and>
   \<not> truthy (getenv example_world (u ''TWILIO_ACCOUNT_SID'')) \<and>
   Tools_init example_world = Inr example_tools \<and>
   send_whatsapp example_lib example_world example_tools (u ''+9198'') (u ''hello'') =
     Inr credentials_missing"
proof -
  have t: "Tools_init example_world = Inr example_tools"
    by (simp add: Tools_init_def example_world_def example_tools_def heartbeat_job_def
        and_then_def scheduler_start_def add_job_def truthy_def Let_def)
  have g: "getenv example_world = (\<lambda>k. None)" "store_error example_world = None"
    by (simp_all add: example_world_def)
  show ?thesis
    using construction_with_missing_credential
      [of None "getenv example_world" None "u ''gemini-2.5-flash''" example_world example_lib]
    by (simp add: t g truthy_def)
qed

end
